theory Spec2Isabelle
  imports Main "HOL-Library.Sublist" "HOL-Library.Multiset" "HOL-Library.Log_Nat"
    "HOL-Library.Char_ord" "HOL-Library.List_Lexorder"
begin

section \<open>Python strings\<close>

text \<open>
  A Python \<open>str\<close> is modelled as a \<open>string\<close> whose characters are the code points
  below 256. The helpers below are the \<open>str\<close> methods and the \<open>int\<close> constructor that
  \<open>analytics.py\<close> and \<open>services.py\<close> call, written out for that range of code points.
\<close>

definition py_isspace :: "char \<Rightarrow> bool" where
  \<comment> \<open>\<open>str.isspace\<close> on one code point: the characters \<open>str.strip()\<close> removes.\<close>
  "py_isspace c \<longleftrightarrow>
     (let n = (of_char c :: nat) in (9 \<le> n \<and> n \<le> 13) \<or> (28 \<le> n \<and> n \<le> 32) \<or> n = 133 \<or> n = 160)"

definition py_strip :: "string \<Rightarrow> string" where
  "py_strip s = rev (dropWhile py_isspace (rev (dropWhile py_isspace s)))"

definition py_replace_Q :: "string \<Rightarrow> string" where
  \<comment> \<open>\<open>s.replace('Q', '-Q')\<close>\<close>
  "py_replace_Q s = concat (map (\<lambda>c. if c = CHR ''Q'' then ''-Q'' else [c]) s)"

function py_split_aux :: "string \<Rightarrow> string \<Rightarrow> string \<Rightarrow> string list" where
  "py_split_aux sep acc [] = [rev acc]"
| "py_split_aux sep acc (c # cs) =
     (if sep \<noteq> [] \<and> prefix sep (c # cs)
      then rev acc # py_split_aux sep [] (drop (length sep) (c # cs))
      else py_split_aux sep (c # acc) cs)"
  by pat_completeness auto
termination
  by (relation "measure (\<lambda>(sep, acc, s). length s)") (auto simp: neq_Nil_conv)

definition py_split :: "string \<Rightarrow> string \<Rightarrow> string list" where
  \<comment> \<open>\<open>s.split(sep)\<close> for a non-empty separator: left to right, matches do not overlap.\<close>
  "py_split s sep = py_split_aux sep [] s"

definition py_isdigit :: "char \<Rightarrow> bool" where
  \<comment> \<open>\<open>str.isdigit\<close>: the ASCII digits and the superscripts 1, 2, 3 of Latin-1.\<close>
  "py_isdigit c \<longleftrightarrow>
     (let n = (of_char c :: nat) in (48 \<le> n \<and> n \<le> 57) \<or> n = 178 \<or> n = 179 \<or> n = 185)"

definition py_zfill2 :: "string \<Rightarrow> string" where
  \<comment> \<open>\<open>s.zfill(2)\<close> for a string without a sign.\<close>
  "py_zfill2 s = replicate (2 - length s) CHR ''0'' @ s"

definition py_upper :: "string \<Rightarrow> string" where
  \<comment> \<open>\<open>str.upper\<close> on the ASCII letters. No other code point has \<open>W\<close> in its upper case,
      which is all the source asks of the result.\<close>
  "py_upper s = map (\<lambda>c. let n = (of_char c :: nat) in
                       if 97 \<le> n \<and> n \<le> 122 then char_of (n - 32) else c) s"

definition py_lower :: "string \<Rightarrow> string" where
  \<comment> \<open>\<open>str.lower\<close>: the ASCII capitals and the capitals of Latin-1.\<close>
  "py_lower s = map (\<lambda>c. let n = (of_char c :: nat) in
                       if (65 \<le> n \<and> n \<le> 90) \<or> (192 \<le> n \<and> n \<le> 222 \<and> n \<noteq> 215)
                       then char_of (n + 32) else c) s"

subsection \<open>\<open>int(str)\<close>\<close>

definition int_space :: "char \<Rightarrow> bool" where
  \<comment> \<open>The white space \<open>int()\<close> skips around the literal.\<close>
  "int_space c \<longleftrightarrow>
     (let n = (of_char c :: nat) in (9 \<le> n \<and> n \<le> 13) \<or> n = 32 \<or> n = 133 \<or> n = 160)"

definition ascii_digit :: "char \<Rightarrow> bool" where
  "ascii_digit c \<longleftrightarrow> (let n = (of_char c :: nat) in 48 \<le> n \<and> n \<le> 57)"

definition digit_val :: "char \<Rightarrow> nat" where
  "digit_val c = of_char c - 48"

fun scan_digits :: "nat \<Rightarrow> string \<Rightarrow> nat option" where
  "scan_digits acc [] = Some acc"
| "scan_digits acc (c # cs) =
     (if ascii_digit c then scan_digits (acc * 10 + digit_val c) cs
      else if c = CHR ''_'' then
        (case cs of
           [] \<Rightarrow> None
         | d # ds \<Rightarrow> if ascii_digit d then scan_digits (acc * 10 + digit_val d) ds else None)
      else None)"

definition py_int :: "string \<Rightarrow> int option" where
  \<comment> \<open>\<open>int(s)\<close>; \<open>None\<close> is the \<open>ValueError\<close>. White space, an optional sign, decimal
      digits with single underscores between them, white space.\<close>
  "py_int s =
     (let t = dropWhile int_space s;
          neg = (case t of [] \<Rightarrow> False | c # _ \<Rightarrow> c = CHR ''-'');
          u = (case t of [] \<Rightarrow> [] | c # r \<Rightarrow> if c = CHR ''-'' \<or> c = CHR ''+'' then r else t);
          body = takeWhile (\<lambda>c. ascii_digit c \<or> c = CHR ''_'') u;
          rest = dropWhile (\<lambda>c. ascii_digit c \<or> c = CHR ''_'') u
      in case body of
           [] \<Rightarrow> None
         | c # cs \<Rightarrow>
             if \<not> ascii_digit c \<or> \<not> list_all int_space rest then None
             else (case scan_digits (digit_val c) cs of
                     None \<Rightarrow> None
                   | Some n \<Rightarrow> Some (if neg then - int n else int n)))"

section \<open>The pandas calls of the period normalizer\<close>

text \<open>
  \<open>pandas\<close> is not part of the repository. Its calls are parameters of the model. A
  parser either raises (\<open>None\<close>) or returns a timestamp, and a timestamp is \<open>NaT\<close>, a
  tz-naive instant or a tz-aware instant. Instants are values of a linearly ordered
  type \<open>'t\<close>; \<open>Aware t\<close> is the instant \<open>t\<close> of universal time.
\<close>

datatype 't stamp = NaT | Naive 't | Aware 't

record 't pandas =
  Timestamp :: "int \<Rightarrow> int \<Rightarrow> int \<Rightarrow> 't option"
    \<comment> \<open>\<open>pd.Timestamp(year=y, month=m, day=d)\<close>: it raises or returns a tz-naive instant\<close>
  Timestamp_min :: "'t"
    \<comment> \<open>\<open>pd.Timestamp.min\<close>, a tz-naive instant\<close>
  Period_start_time :: "string \<Rightarrow> string \<Rightarrow> 't stamp option"
    \<comment> \<open>\<open>pd.Period(s, freq=f).start_time\<close>, as \<open>Period_start_time f s\<close>\<close>
  to_datetime_format :: "string \<Rightarrow> string \<Rightarrow> 't stamp option"
    \<comment> \<open>\<open>pd.to_datetime(s, format=f)\<close>, as \<open>to_datetime_format f s\<close>\<close>
  to_datetime :: "string \<Rightarrow> 't stamp option"
    \<comment> \<open>\<open>pd.to_datetime(s)\<close>\<close>
  to_period_str :: "string \<Rightarrow> 't \<Rightarrow> string"
    \<comment> \<open>one element of \<open>Series.dt.to_period(f).astype(str)\<close>, as \<open>to_period_str f t\<close>\<close>
  mean_round2 :: "rat list \<Rightarrow> rat"
    \<comment> \<open>\<open>.mean().round(2)\<close> of the values of one group\<close>

fun stamp_less :: "('t::linorder) stamp \<Rightarrow> 't stamp \<Rightarrow> bool option" where
  \<comment> \<open>\<open>a < b\<close> on two timestamps. \<open>NaT\<close> is less than nothing and nothing is less than
      it; comparing a tz-naive with a tz-aware timestamp raises \<open>TypeError\<close> (\<open>None\<close>).\<close>
  "stamp_less (Naive a) (Naive b) = Some (a < b)"
| "stamp_less (Aware a) (Aware b) = Some (a < b)"
| "stamp_less (Naive a) (Aware b) = None"
| "stamp_less (Aware a) (Naive b) = None"
| "stamp_less NaT b = Some False"
| "stamp_less a NaT = Some False"

section \<open>\<open>list.sort\<close>\<close>

text \<open>
  \<open>list.sort\<close> compares keys with \<open><\<close> only, and stops at the first comparison that
  raises. CPython up to version 3.12 sorts a list of fewer than 64 elements as written
  below: it takes the run the list starts with (ascending, or strictly descending and
  then reversed) and inserts the remaining elements one by one, each at the place a
  binary search finds. A longer list is cut into several runs that are merged, and later
  versions look for the first run in another way. The result is that of the function
  below whenever the comparisons are those of a total preorder (it is the stable sort),
  whenever no element is less than the one before it (it is the list as given), and
  whenever no key compares like \<open>NaT\<close> and two of the keys cannot be compared (a
  comparison raises). It can differ only on a list with a key that compares like \<open>NaT\<close>.
\<close>

fun run_ascending :: "('a \<Rightarrow> 'a \<Rightarrow> bool option) \<Rightarrow> 'a \<Rightarrow> 'a list \<Rightarrow> nat option" where
  \<comment> \<open>how many of the next elements continue an ascending run that ends with \<open>prev\<close>\<close>
  "run_ascending lt prev [] = Some 0"
| "run_ascending lt prev (x # xs) =
     (case lt x prev of
        None \<Rightarrow> None
      | Some True \<Rightarrow> Some 0
      | Some False \<Rightarrow> map_option Suc (run_ascending lt x xs))"

fun run_descending :: "('a \<Rightarrow> 'a \<Rightarrow> bool option) \<Rightarrow> 'a \<Rightarrow> 'a list \<Rightarrow> nat option" where
  "run_descending lt prev [] = Some 0"
| "run_descending lt prev (x # xs) =
     (case lt x prev of
        None \<Rightarrow> None
      | Some False \<Rightarrow> Some 0
      | Some True \<Rightarrow> map_option Suc (run_descending lt x xs))"

definition count_run :: "('a \<Rightarrow> 'a \<Rightarrow> bool option) \<Rightarrow> 'a list \<Rightarrow> (nat \<times> bool) option" where
  \<comment> \<open>the length of the run at the start of the list, and whether it is descending\<close>
  "count_run lt xs =
     (case xs of
        x # y # ys \<Rightarrow>
          (case lt y x of
             None \<Rightarrow> None
           | Some True \<Rightarrow> map_option (\<lambda>n. (n + 2, True)) (run_descending lt y ys)
           | Some False \<Rightarrow> map_option (\<lambda>n. (n + 2, False)) (run_ascending lt y ys))
      | _ \<Rightarrow> Some (length xs, False))"

function bisect :: "('a \<Rightarrow> 'a \<Rightarrow> bool option) \<Rightarrow> 'a \<Rightarrow> 'a list \<Rightarrow> nat \<Rightarrow> nat \<Rightarrow> nat option" where
  \<comment> \<open>the place of \<open>pivot\<close> among \<open>run ! l\<close>, ..., \<open>run ! (r - 1)\<close>\<close>
  "bisect lt pivot run l r =
     (if l < r then
        (case lt pivot (run ! (l + (r - l) div 2)) of
           None \<Rightarrow> None
         | Some True \<Rightarrow> bisect lt pivot run l (l + (r - l) div 2)
         | Some False \<Rightarrow> bisect lt pivot run (l + (r - l) div 2 + 1) r)
      else Some l)"
  by pat_completeness auto
termination
  by (relation "measure (\<lambda>(lt, pivot, run, l, r). r - l)") auto

declare bisect.simps [simp del]

fun binarysort :: "('a \<Rightarrow> 'a \<Rightarrow> bool option) \<Rightarrow> 'a list \<Rightarrow> 'a list \<Rightarrow> 'a list option" where
  \<comment> \<open>insert the elements of the second list into the sorted run, one by one\<close>
  "binarysort lt run [] = Some run"
| "binarysort lt run (pivot # rest) =
     (case bisect lt pivot run 0 (length run) of
        None \<Rightarrow> None
      | Some l \<Rightarrow> binarysort lt (take l run @ pivot # drop l run) rest)"

definition list_sort :: "('a \<Rightarrow> 'a \<Rightarrow> bool option) \<Rightarrow> 'a list \<Rightarrow> 'a list option" where
  \<comment> \<open>\<open>xs.sort()\<close> with \<open>lt\<close> for \<open><\<close>; \<open>None\<close> when a comparison raises\<close>
  "list_sort lt xs =
     (if length xs < 2 then Some xs
      else (case count_run lt xs of
              None \<Rightarrow> None
            | Some (n, descending) \<Rightarrow>
                binarysort lt (if descending then rev (take n xs) else take n xs) (drop n xs)))"

section \<open>Period normalizer\<close>

datatype cell = NaN | Str string

fun str :: "cell \<Rightarrow> string" where
  \<comment> \<open>\<open>str(period)\<close>\<close>
  "str NaN = ''nan''"
| "str (Str s) = s"

definition or_else :: "'a option \<Rightarrow> 'a option \<Rightarrow> 'a option" where
  \<comment> \<open>\<open>try: a  except Exception: b\<close>\<close>
  "or_else a b = (case a of Some x \<Rightarrow> Some x | None \<Rightarrow> b)"

definition parse_quarter :: "'t pandas \<Rightarrow> string \<Rightarrow> 't stamp option" where
  "parse_quarter pd period_str =
     (case py_split (py_replace_Q period_str) ''-Q'' of
        p0 # p1 # _ \<Rightarrow>
          (case py_int p0 of
             None \<Rightarrow> None
           | Some year \<Rightarrow>
               (case py_int p1 of
                  None \<Rightarrow> None
                | Some quarter \<Rightarrow> map_option Naive (Timestamp pd year ((quarter - 1) * 3 + 1) 1)))
      | _ \<Rightarrow> None)"

definition parse_week :: "'t pandas \<Rightarrow> string \<Rightarrow> 't stamp option" where
  "parse_week pd period_str =
     or_else (Period_start_time pd ''W'' period_str)
       (let year_part = take 4 period_str;
            week_part = filter py_isdigit (drop 4 period_str)
        in to_datetime_format pd ''%Y-W%W-%w''
             (year_part @ ''-W'' @ py_zfill2 week_part @ ''-1''))"

definition parse_month :: "'t pandas \<Rightarrow> string \<Rightarrow> 't stamp option" where
  "parse_month pd period_str =
     or_else (Period_start_time pd ''M'' period_str)
             (to_datetime_format pd ''%Y-%m'' period_str)"

definition parse_date :: "'t pandas \<Rightarrow> string \<Rightarrow> 't stamp option" where
  "parse_date pd period_str =
     or_else (to_datetime_format pd ''%b %Y'' period_str)
       (or_else (to_datetime_format pd ''%B %Y'' period_str)
                (to_datetime pd period_str))"

definition parse_period :: "'t pandas \<Rightarrow> string \<Rightarrow> 't stamp option" where
  \<comment> \<open>The body of the inner \<open>try\<close> (lines 33 to 64); \<open>None\<close> is any exception it raises.\<close>
  "parse_period pd period_str =
     (if CHR ''Q'' \<in> set period_str then parse_quarter pd period_str
      else if CHR ''W'' \<in> set (py_upper period_str) then parse_week pd period_str
      else if CHR ''-'' \<in> set period_str \<and> length period_str \<le> 7 then parse_month pd period_str
      else parse_date pd period_str)"

definition period_key :: "'t pandas \<Rightarrow> cell \<Rightarrow> 't stamp" where
  \<comment> \<open>The second component of the pair appended at line 66 or at line 69.\<close>
  "period_key pd period =
     (case parse_period pd (py_strip (str period)) of
        Some dt \<Rightarrow> dt
      | None \<Rightarrow> Naive (Timestamp_min pd))"

definition sort_periods_chronologically :: "('t::linorder) pandas \<Rightarrow> cell list option \<Rightarrow> cell list" where
  \<comment> \<open>\<open>AdAnalytics._sort_periods_chronologically\<close>. The argument is \<open>None\<close> or the list of
      the labels. When a comparison of the sort raises, the outer \<open>except\<close> (line 76)
      returns the labels as they were given.\<close>
  "sort_periods_chronologically pd periods =
     (let periods = (case periods of None \<Rightarrow> [] | Some ps \<Rightarrow> ps)
      in if length periods = 0 then []
         else let parsed_periods = map (\<lambda>period. (period, period_key pd period)) periods
              in case list_sort (\<lambda>x y. stamp_less (snd x) (snd y)) parsed_periods of
                   Some sorted_periods \<Rightarrow> map fst sorted_periods
                 | None \<Rightarrow> periods)"

section \<open>Python floats\<close>

text \<open>
  A finite \<open>float\<close> is modelled by the rational number it denotes. \<open>fl\<close> rounds a
  rational to the nearest binary64 value, ties to even, with 53 significant bits and the
  least exponent \<open>-1074\<close>; it is the rounding of every operation below. Values of
  magnitude \<open>2 ^ 1024\<close> and more are outside the model; the win rate stays within
  \<open>[0, 100]\<close>.
\<close>

definition round_half_even :: "rat \<Rightarrow> int" where
  "round_half_even x =
     (let f = \<lfloor>x\<rfloor>; r = x - of_int f
      in if r < 1 / 2 then f
         else if 1 / 2 < r then f + 1
         else if even f then f else f + 1)"

definition ilog2 :: "rat \<Rightarrow> int" where
  \<comment> \<open>\<open>\<lfloor>log 2 \<bar>x\<bar>\<rfloor>\<close> for \<open>x \<noteq> 0\<close>, from the bit lengths of numerator and denominator.\<close>
  "ilog2 x =
     (let (a, b) = quotient_of \<bar>x\<bar>; d = bitlen a - bitlen b
      in if 2 powi d \<le> \<bar>x\<bar> then d else d - 1)"

definition fl :: "rat \<Rightarrow> rat" where
  "fl x =
     (if x = 0 then 0
      else let e = max (ilog2 x - 52) (- 1074)
           in of_int (round_half_even (x / 2 powi e)) * 2 powi e)"

datatype error = KeyError string | ZeroDivisionError | OverflowError

definition py_truediv :: "int \<Rightarrow> int \<Rightarrow> error + rat" where
  \<comment> \<open>\<open>a / b\<close> on two \<open>int\<close>s: the correctly rounded quotient.\<close>
  "py_truediv a b =
     (if b = 0 then Inl ZeroDivisionError
      else if 2 ^ 1024 \<le> \<bar>fl (of_int a / of_int b)\<bar> then Inl OverflowError
      else Inr (fl (of_int a / of_int b)))"

definition py_fmul :: "rat \<Rightarrow> rat \<Rightarrow> rat" where
  \<comment> \<open>\<open>x * y\<close> on floats\<close>
  "py_fmul x y = fl (x * y)"

definition py_round2 :: "rat \<Rightarrow> rat" where
  \<comment> \<open>\<open>round(x, 2)\<close> on a float: the float nearest to the decimal with two places
      that is nearest to \<open>x\<close>, ties to even.\<close>
  "py_round2 x = fl (of_int (round_half_even (x * 100)) / 100)"

section \<open>The table\<close>

text \<open>
  A \<open>DataFrame\<close> is its list of column names and its rows. A row has one field for every
  column the engine reads or writes; a field whose column is not in \<open>columns\<close> is not
  part of the frame, and reading that column raises \<open>KeyError\<close>. \<open>NaN\<close> is the missing
  value of a string column, \<open>None\<close> that of a date (\<open>NaT\<close>) or number column.
\<close>

record 't row =
  Launch_Date :: "'t option"
  Status :: cell
  Strategist :: cell
  Editor_Designer :: cell
  Product :: cell
  Type :: cell
  Format :: cell
  Ad_time_to_ready_days :: "rat option"
  Editing_Duration_minutes :: "rat option"
  Launch_Month :: cell
  Launch_YY_WW :: cell
  Period :: cell
  Editing_Duration_hours :: "rat option"

record 't table =
  columns :: "string list"
  rows :: "'t row list"

definition has_column :: "'t table \<Rightarrow> string \<Rightarrow> bool" where
  \<comment> \<open>\<open>name in df.columns\<close>\<close>
  "has_column df name \<longleftrightarrow> name \<in> set (columns df)"

definition df_empty :: "'t table \<Rightarrow> bool" where
  \<comment> \<open>\<open>df.empty\<close>: an axis of length 0\<close>
  "df_empty df \<longleftrightarrow> rows df = [] \<or> columns df = []"

definition df_filter :: "('t row \<Rightarrow> bool) \<Rightarrow> 't table \<Rightarrow> 't table" where
  \<comment> \<open>\<open>df[mask]\<close> for a boolean mask given row by row\<close>
  "df_filter keep df = df\<lparr>rows := filter keep (rows df)\<rparr>"

definition df_assign :: "string \<Rightarrow> ('t row \<Rightarrow> 't row) \<Rightarrow> 't table \<Rightarrow> 't table" where
  \<comment> \<open>\<open>df[name] = ...\<close>: the column is added when it is new, every row gets its value.\<close>
  "df_assign name f df =
     df\<lparr>columns := (if name \<in> set (columns df) then columns df else columns df @ [name]),
        rows := map f (rows df)\<rparr>"

definition cell_eq :: "cell \<Rightarrow> cell \<Rightarrow> bool" where
  \<comment> \<open>one element of \<open>series == value\<close>: a missing value equals nothing\<close>
  "cell_eq a b \<longleftrightarrow> a = b \<and> a \<noteq> NaN"

definition dropna :: "cell list \<Rightarrow> cell list" where
  "dropna xs = filter (\<lambda>c. c \<noteq> NaN) xs"

definition unique :: "'a list \<Rightarrow> 'a list" where
  \<comment> \<open>\<open>Series.unique()\<close>: the distinct values in order of first appearance\<close>
  "unique xs = rev (remdups (rev xs))"

definition groupby_keys :: "'t table \<Rightarrow> string list" where
  \<comment> \<open>The keys of \<open>df.groupby('Period')\<close>: the distinct values that are not missing, sorted.\<close>
  "groupby_keys df =
     sort (remdups (List.map_filter (\<lambda>r. case Period r of NaN \<Rightarrow> None | Str s \<Rightarrow> Some s) (rows df)))"

definition str_lower_eq :: "cell \<Rightarrow> string \<Rightarrow> bool" where
  \<comment> \<open>one element of \<open>series.str.lower() == s\<close>\<close>
  "str_lower_eq c s = (case c of NaN \<Rightarrow> False | Str v \<Rightarrow> py_lower v = s)"

section \<open>Metric: win rate\<close>

definition calculate_win_rate :: "'t table \<Rightarrow> error + rat" where
  \<comment> \<open>\<open>NotionService.calculate_win_rate\<close>\<close>
  "calculate_win_rate df =
     (if df_empty df then Inr 0
      else if \<not> has_column df ''Status'' then Inl (KeyError ''Status'')
      else let winners = length (filter (\<lambda>r. str_lower_eq (Status r) ''winner'') (rows df));
               losers = length (filter (\<lambda>r. str_lower_eq (Status r) ''loser'') (rows df));
               launched = length (filter (\<lambda>r. str_lower_eq (Status r) ''launched'') (rows df));
               total = winners + losers + launched
           in if total = 0 then Inr 0
              else (case py_truediv (int winners) (int total) of
                      Inl e \<Rightarrow> Inl e
                    | Inr q \<Rightarrow> Inr (py_round2 (py_fmul q 100))))"

section \<open>Aggregation engine\<close>

datatype style = Line nat bool | Bar string
  \<comment> \<open>\<open>'borderWidth'\<close> and \<open>'fill'\<close> of a line dataset; \<open>'backgroundColor'\<close> of a bar dataset\<close>

record 'v dataset =
  label :: cell
  data :: "'v list"
  style :: style

datatype 'v chart =
    Single "cell list" "'v list"
  | Multi "cell list" "'v dataset list"
  \<comment> \<open>\<open>{'labels': ..., 'data': ...}\<close> and \<open>{'labels': ..., 'datasets': ...}\<close>\<close>

fun labels :: "'v chart \<Rightarrow> cell list" where
  "labels (Single ls ds) = ls"
| "labels (Multi ls ds) = ls"

fun datasets :: "'v chart \<Rightarrow> 'v dataset list" where
  "datasets (Single ls ds) = []"
| "datasets (Multi ls ds) = ds"

fun traverse :: "('a \<Rightarrow> error + 'b) \<Rightarrow> 'a list \<Rightarrow> error + 'b list" where
  \<comment> \<open>A \<open>for\<close> loop that appends one value per element and stops at the first exception.\<close>
  "traverse f [] = Inr []"
| "traverse f (x # xs) =
     (case f x of
        Inl e \<Rightarrow> Inl e
      | Inr y \<Rightarrow> (case traverse f xs of Inl e \<Rightarrow> Inl e | Inr ys \<Rightarrow> Inr (y # ys)))"

definition truthy :: "string option \<Rightarrow> bool" where
  \<comment> \<open>\<open>if status:\<close> on an optional string argument\<close>
  "truthy a \<longleftrightarrow> (case a of None \<Rightarrow> False | Some s \<Rightarrow> s \<noteq> [])"

definition period_of_date :: "'t pandas \<Rightarrow> string \<Rightarrow> 't row \<Rightarrow> cell" where
  \<comment> \<open>one element of \<open>df['Launch Date'].dt.to_period(f).astype(str)\<close>\<close>
  "period_of_date pd f r =
     (case Launch_Date r of None \<Rightarrow> Str ''NaT'' | Some t \<Rightarrow> Str (to_period_str pd f t))"

definition assign_period :: "'t pandas \<Rightarrow> string \<Rightarrow> 't table \<Rightarrow> 't table" where
  \<comment> \<open>The block of lines 94 to 105, repeated in every rate, mean and volume query.\<close>
  "assign_period pd period df =
     (if period = ''week'' then
        (if has_column df ''Launch YY-WW''
         then df_assign ''Period'' (\<lambda>r. r\<lparr>Period := Launch_YY_WW r\<rparr>) df
         else df_assign ''Period'' (\<lambda>r. r\<lparr>Period := period_of_date pd ''W'' r\<rparr>) df)
      else if period = ''quarter'' then
        df_assign ''Period'' (\<lambda>r. r\<lparr>Period := period_of_date pd ''Q'' r\<rparr>) df
      else
        (if has_column df ''Launch Month''
         then df_assign ''Period'' (\<lambda>r. r\<lparr>Period := Launch_Month r\<rparr>) df
         else df_assign ''Period'' (\<lambda>r. r\<lparr>Period := period_of_date pd ''M'' r\<rparr>) df))"

definition assign_period_ratio :: "'t pandas \<Rightarrow> string \<Rightarrow> 't table \<Rightarrow> 't table" where
  \<comment> \<open>The block of lines 274 to 286, repeated in the three ratio queries.\<close>
  "assign_period_ratio pd period df =
     (if period = ''quarter'' then
        df_assign ''Period'' (\<lambda>r. r\<lparr>Period := period_of_date pd ''Q'' r\<rparr>) df
      else if period = ''week'' then
        (if has_column df ''Launch Month''
         then df_assign ''Period'' (\<lambda>r. r\<lparr>Period := Launch_Month r\<rparr>) df
         else df_assign ''Period'' (\<lambda>r. r\<lparr>Period := period_of_date pd ''M'' r\<rparr>) df)
      else
        (if has_column df ''Launch Month''
         then df_assign ''Period'' (\<lambda>r. r\<lparr>Period := Launch_Month r\<rparr>) df
         else df_assign ''Period'' (\<lambda>r. r\<lparr>Period := period_of_date pd ''M'' r\<rparr>) df))"

definition lookup :: "(cell \<times> 'v) list \<Rightarrow> cell \<Rightarrow> error + 'v" where
  \<comment> \<open>\<open>result[p]\<close>\<close>
  "lookup result p = (case map_of result p of None \<Rightarrow> Inl (KeyError (str p)) | Some v \<Rightarrow> Inr v)"

definition series_chart :: "('t::linorder) pandas \<Rightarrow> (cell \<times> 'v) list \<Rightarrow> error + 'v chart" where
  \<comment> \<open>The last lines of every single-series query: sort the keys of \<open>result\<close>, read the
      values in that order.\<close>
  "series_chart pd result =
     (let sorted_periods = sort_periods_chronologically pd (Some (map fst result))
      in case traverse (lookup result) sorted_periods of
           Inl e \<Rightarrow> Inl e
         | Inr ds \<Rightarrow> Inr (Single sorted_periods ds))"

definition group :: "'t table \<Rightarrow> string \<Rightarrow> 't table" where
  \<comment> \<open>the sub-table of one key of \<open>df.groupby('Period')\<close>\<close>
  "group df k = df_filter (\<lambda>r. Period r = Str k) df"

definition get_win_rate_by_period :: "('t::linorder) pandas \<Rightarrow> 't table \<Rightarrow> string \<Rightarrow> error + rat chart" where
  "get_win_rate_by_period pd df period =
     (if \<not> has_column df ''Launch Date'' \<or> df_empty df then Inr (Single [] [])
      else let df = df_filter (\<lambda>r. Launch_Date r \<noteq> None) df;
               df = assign_period pd period df
           in case traverse (\<lambda>period_val. calculate_win_rate (group df period_val)) (groupby_keys df) of
                Inl e \<Rightarrow> Inl e
              | Inr rates \<Rightarrow> series_chart pd (zip (map Str (groupby_keys df)) rates))"

definition win_rate_by_dimension ::
  "('t::linorder) pandas \<Rightarrow> string \<Rightarrow> ('t row \<Rightarrow> cell) \<Rightarrow> 't table \<Rightarrow> string \<Rightarrow> error + rat chart" where
  \<comment> \<open>The common body of \<open>get_win_rate_by_strategist\<close>, \<open>get_win_rate_by_product\<close> and
      \<open>get_win_rate_by_ad_type\<close>, for the column \<open>name\<close> read by \<open>col\<close>.\<close>
  "win_rate_by_dimension pd name col df period =
     (if \<not> has_column df ''Launch Date'' \<or> \<not> has_column df name \<or> df_empty df then Inr (Multi [] [])
      else let df = df_filter (\<lambda>r. Launch_Date r \<noteq> None) df;
               df = assign_period pd period df;
               periods = sort_periods_chronologically pd (Some (unique (map Period (rows df))));
               vals = unique (dropna (map col (rows df)))
           in case traverse
                     (\<lambda>v. case traverse
                                  (\<lambda>period_val. calculate_win_rate
                                     (df_filter (\<lambda>r. cell_eq (Period r) period_val \<and> cell_eq (col r) v) df))
                                  periods of
                             Inl e \<Rightarrow> Inl e
                           | Inr ds \<Rightarrow> Inr \<lparr>label = v, data = ds, style = Line 2 False\<rparr>)
                     vals of
                Inl e \<Rightarrow> Inl e
              | Inr dss \<Rightarrow> Inr (Multi periods dss))"

definition get_win_rate_by_strategist :: "('t::linorder) pandas \<Rightarrow> 't table \<Rightarrow> string \<Rightarrow> error + rat chart" where
  "get_win_rate_by_strategist pd = win_rate_by_dimension pd ''Strategist'' Strategist"

definition get_win_rate_by_product :: "('t::linorder) pandas \<Rightarrow> 't table \<Rightarrow> string \<Rightarrow> error + rat chart" where
  "get_win_rate_by_product pd = win_rate_by_dimension pd ''Product'' Product"

definition get_win_rate_by_ad_type :: "('t::linorder) pandas \<Rightarrow> 't table \<Rightarrow> string \<Rightarrow> error + rat chart" where
  "get_win_rate_by_ad_type pd = win_rate_by_dimension pd ''Type'' Type"

definition status_filter :: "string option \<Rightarrow> 't table \<Rightarrow> 't table" where
  \<comment> \<open>\<open>if status and 'Status' in df.columns: df = df[df['Status'].str.lower() == status.lower()]\<close>\<close>
  "status_filter status df =
     (if truthy status \<and> has_column df ''Status''
      then df_filter (\<lambda>r. str_lower_eq (Status r) (py_lower (the status))) df
      else df)"

definition count_cell :: "'t table \<Rightarrow> ('t row \<Rightarrow> cell) \<Rightarrow> cell \<Rightarrow> cell \<Rightarrow> nat" where
  \<comment> \<open>\<open>len(df[(df['Period'] == period_val) & (df[name] == v)])\<close>\<close>
  "count_cell df col period_val v =
     length (filter (\<lambda>r. cell_eq (Period r) period_val \<and> cell_eq (col r) v) (rows df))"

definition colors :: "string list" where
  "colors = [''#FF6384'', ''#36A2EB'', ''#FFCE56'', ''#4BC0C0'', ''#9966FF'', ''#FF9F40'',
             ''#FF6B6B'', ''#4ECDC4'']"

definition ratio_by_dimension ::
  "('t::linorder) pandas \<Rightarrow> string \<Rightarrow> ('t row \<Rightarrow> cell) \<Rightarrow> 't table \<Rightarrow> string \<Rightarrow> string option
     \<Rightarrow> error + nat chart" where
  \<comment> \<open>The common body of \<open>get_ad_type_ratio\<close> and \<open>get_format_ratio\<close>.\<close>
  "ratio_by_dimension pd name col df period status =
     (if \<not> has_column df ''Launch Date'' \<or> \<not> has_column df name \<or> df_empty df then Inr (Multi [] [])
      else let df = df_filter (\<lambda>r. Launch_Date r \<noteq> None) df;
               df = status_filter status df;
               df = assign_period_ratio pd period df;
               periods = sort_periods_chronologically pd (Some (unique (map Period (rows df))));
               vals = unique (dropna (map col (rows df)))
           in Inr (Multi periods
                (map (\<lambda>(idx, v).
                        \<lparr>label = v,
                         data = map (\<lambda>period_val. count_cell df col period_val v) periods,
                         style = Bar (colors ! (idx mod length colors))\<rparr>)
                     (enumerate 0 vals))))"

definition get_ad_type_ratio ::
  "('t::linorder) pandas \<Rightarrow> 't table \<Rightarrow> string \<Rightarrow> string option \<Rightarrow> error + nat chart" where
  "get_ad_type_ratio pd = ratio_by_dimension pd ''Type'' Type"

definition get_format_ratio ::
  "('t::linorder) pandas \<Rightarrow> 't table \<Rightarrow> string \<Rightarrow> string option \<Rightarrow> error + nat chart" where
  "get_format_ratio pd = ratio_by_dimension pd ''Format'' Format"

definition product_colors :: "(string \<times> string) list" where
  "product_colors = [(''V34'', ''#9966FF''), (''Whitening Kit'', ''#36A2EB''),
                     (''Plaque Remover'', ''#FFCE56'')]"

definition default_colors :: "string list" where
  "default_colors = [''#FF6384'', ''#4BC0C0'', ''#FF9F40'', ''#FF6B6B'', ''#4ECDC4'']"

definition fill_product :: "cell \<Rightarrow> cell" where
  \<comment> \<open>one element of \<open>df['Product'].fillna('Unknown').replace('', 'Unknown')\<close>\<close>
  "fill_product c = (if c = NaN \<or> c = Str [] then Str ''Unknown'' else c)"

fun product_datasets :: "'t table \<Rightarrow> cell list \<Rightarrow> nat \<Rightarrow> cell list \<Rightarrow> nat dataset list" where
  \<comment> \<open>The loop of lines 356 to 373; the third argument is \<open>default_color_idx\<close>.\<close>
  "product_datasets df periods default_color_idx [] = []"
| "product_datasets df periods default_color_idx (product # rest) =
     (let ds = map (\<lambda>period_val. count_cell df Product period_val product) periods
      in case map_of product_colors (str product) of
           Some color \<Rightarrow>
             \<lparr>label = (if product = Str [] then Str ''Unknown'' else product), data = ds,
              style = Bar color\<rparr>
             # product_datasets df periods default_color_idx rest
         | None \<Rightarrow>
             \<lparr>label = (if product = Str [] then Str ''Unknown'' else product), data = ds,
              style = Bar (default_colors ! (default_color_idx mod length default_colors))\<rparr>
             # product_datasets df periods (default_color_idx + 1) rest)"

definition get_product_ratio ::
  "('t::linorder) pandas \<Rightarrow> 't table \<Rightarrow> string \<Rightarrow> string option \<Rightarrow> error + nat chart" where
  "get_product_ratio pd df period status =
     (if \<not> has_column df ''Launch Date'' \<or> \<not> has_column df ''Product'' \<or> df_empty df
      then Inr (Multi [] [])
      else let df = df_filter (\<lambda>r. Launch_Date r \<noteq> None) df;
               df = status_filter status df;
               df = df_assign ''Product'' (\<lambda>r. r\<lparr>Product := fill_product (Product r)\<rparr>) df;
               df = assign_period_ratio pd period df;
               periods = sort_periods_chronologically pd (Some (unique (dropna (map Period (rows df)))));
               products = unique (dropna (map Product (rows df)))
           in Inr (Multi periods (product_datasets df periods 0 products)))"

definition group_values :: "'t table \<Rightarrow> ('t row \<Rightarrow> 'v) \<Rightarrow> (cell \<times> 'v list) list" where
  \<comment> \<open>\<open>df.groupby('Period')[name]\<close>: each key with the values of its rows\<close>
  "group_values df col = map (\<lambda>k. (Str k, map col (rows (group df k)))) (groupby_keys df)"

definition strategist_filter :: "string option \<Rightarrow> 't table \<Rightarrow> error + 't table" where
  \<comment> \<open>\<open>if strategist: df = df[df['Strategist'] == strategist]\<close>\<close>
  "strategist_filter strategist df =
     (if truthy strategist then
        (if \<not> has_column df ''Strategist'' then Inl (KeyError ''Strategist'')
         else Inr (df_filter (\<lambda>r. cell_eq (Strategist r) (Str (the strategist))) df))
      else Inr df)"

definition get_avg_production_time ::
  "('t::linorder) pandas \<Rightarrow> 't table \<Rightarrow> string option \<Rightarrow> string \<Rightarrow> error + rat chart" where
  "get_avg_production_time pd df strategist period =
     (if \<not> has_column df ''Ad time to ready (days)'' \<or> \<not> has_column df ''Launch Date''
      then Inr (Single [] [])
      else let df = df_filter (\<lambda>r. Launch_Date r \<noteq> None) df;
               df = df_filter (\<lambda>r. Ad_time_to_ready_days r \<noteq> None) df;
               df = df_filter (\<lambda>r. 0 < the (Ad_time_to_ready_days r)) df
           in if df_empty df then Inr (Single [] [])
              else (case strategist_filter strategist df of
                      Inl e \<Rightarrow> Inl e
                    | Inr df \<Rightarrow>
                        if truthy strategist \<and> df_empty df then Inr (Single [] [])
                        else let df = assign_period pd period df
                             in series_chart pd
                                  (map (\<lambda>(k, vs). (k, mean_round2 pd (map the vs)))
                                       (group_values df Ad_time_to_ready_days))))"

definition editor_filter :: "string option \<Rightarrow> 't table \<Rightarrow> error + 't table" where
  \<comment> \<open>\<open>if editor: df = df[df['Editor/Designer'] == editor]\<close>\<close>
  "editor_filter editor df =
     (if truthy editor then
        (if \<not> has_column df ''Editor/Designer'' then Inl (KeyError ''Editor/Designer'')
         else Inr (df_filter (\<lambda>r. cell_eq (Editor_Designer r) (Str (the editor))) df))
      else Inr df)"

definition get_avg_editing_time ::
  "('t::linorder) pandas \<Rightarrow> 't table \<Rightarrow> string option \<Rightarrow> string \<Rightarrow> error + rat chart" where
  "get_avg_editing_time pd df editor period =
     (if \<not> has_column df ''Editing Duration (minutes)'' \<or> \<not> has_column df ''Launch Date''
      then Inr (Single [] [])
      else let df = df_filter (\<lambda>r. Launch_Date r \<noteq> None) df;
               df = df_filter (\<lambda>r. Editing_Duration_minutes r \<noteq> None) df;
               df = df_assign ''Editing Duration (hours)''
                      (\<lambda>r. r\<lparr>Editing_Duration_hours :=
                                 map_option (\<lambda>m. fl (m / 60)) (Editing_Duration_minutes r)\<rparr>) df
           in case editor_filter editor df of
                Inl e \<Rightarrow> Inl e
              | Inr df \<Rightarrow>
                  let df = assign_period pd period df
                  in series_chart pd
                       (map (\<lambda>(k, vs). (k, mean_round2 pd (map the vs)))
                            (group_values df Editing_Duration_hours)))"

definition get_creatives_volume ::
  "('t::linorder) pandas \<Rightarrow> 't table \<Rightarrow> string \<Rightarrow> string option \<Rightarrow> string option \<Rightarrow> error + nat chart" where
  "get_creatives_volume pd df period strategist status =
     (if \<not> has_column df ''Launch Date'' \<or> df_empty df then Inr (Single [] [])
      else let df = df_filter (\<lambda>r. Launch_Date r \<noteq> None) df;
               df = status_filter status df
           in case strategist_filter strategist df of
                Inl e \<Rightarrow> Inl e
              | Inr df \<Rightarrow>
                  let df = assign_period pd period df
                  in series_chart pd
                       (map (\<lambda>(k, vs). (k, length vs)) (group_values df (\<lambda>r. ()))))"

section \<open>A sample of pandas\<close>

text \<open>
  To run the model on concrete tables the parameters need values. \<open>pandas_sample\<close>
  takes instants as nanoseconds since 1970-01-01. It follows pandas on the labels and
  dates of the examples below: the \<open>Timestamp\<close> constructor on calendar dates,
  \<open>Timestamp.min\<close>, the month labels written \<open>YYYY-MM\<close> within the range of nanosecond
  timestamps, the empty label and the spellings of a missing value, which \<open>to_datetime\<close>
  reads as \<open>NaT\<close>, the one literal that \<open>to_datetime\<close> reads as \<open>Timestamp.min\<close>, and
  the month, quarter and week periods of a date. It is no model of pandas beyond them:
  its parsers raise on every other string, where pandas reads many (\<open>Jan 2024\<close> for
  one), and its mean is the exact mean rounded to two places, not the floating-point
  mean of pandas. The examples use the labels and dates listed, and no mean.
\<close>

definition ns_per_day :: int where
  "ns_per_day = 86400000000000"

definition days_from_civil :: "int \<Rightarrow> int \<Rightarrow> int \<Rightarrow> int" where
  \<comment> \<open>days from 1970-01-01 to the date \<open>y\<close>-\<open>m\<close>-\<open>d\<close> of the Gregorian calendar\<close>
  "days_from_civil y m d =
     (let y' = (if m \<le> 2 then y - 1 else y);
          era = y' div 400;
          yoe = y' - era * 400;
          mp = (if 2 < m then m - 3 else m + 9);
          doy = (153 * mp + 2) div 5 + d - 1;
          doe = yoe * 365 + yoe div 4 - yoe div 100 + doy
      in era * 146097 + doe - 719468)"

definition civil_from_days :: "int \<Rightarrow> int \<times> int \<times> int" where
  "civil_from_days z0 =
     (let z = z0 + 719468;
          era = z div 146097;
          doe = z - era * 146097;
          yoe = (doe - doe div 1460 + doe div 36524 - doe div 146096) div 365;
          doy = doe - (365 * yoe + yoe div 4 - yoe div 100);
          mp = (5 * doy + 2) div 153;
          d = doy - (153 * mp + 2) div 5 + 1;
          m = (if mp < 10 then mp + 3 else mp - 9)
      in ((if m \<le> 2 then yoe + era * 400 + 1 else yoe + era * 400), m, d))"

definition days_in_month :: "int \<Rightarrow> int \<Rightarrow> int" where
  "days_in_month y m =
     (if m = 2 then (if y mod 4 = 0 \<and> (y mod 100 \<noteq> 0 \<or> y mod 400 = 0) then 29 else 28)
      else if m = 4 \<or> m = 6 \<or> m = 9 \<or> m = 11 then 30 else 31)"

definition sample_min :: int where
  \<comment> \<open>1677-09-21 00:12:43.145224193\<close>
  "sample_min = - 9223372036854775807"

definition sample_max :: int where
  \<comment> \<open>2262-04-11 23:47:16.854775807\<close>
  "sample_max = 9223372036854775807"

definition sample_Timestamp :: "int \<Rightarrow> int \<Rightarrow> int \<Rightarrow> int option" where
  "sample_Timestamp y m d =
     (if 1 \<le> y \<and> y \<le> 9999 \<and> 1 \<le> m \<and> m \<le> 12 \<and> 1 \<le> d \<and> d \<le> days_in_month y m
      then Some (days_from_civil y m d * ns_per_day) else None)"

definition show_digits :: "nat \<Rightarrow> int \<Rightarrow> string" where
  \<comment> \<open>the last \<open>w\<close> decimal digits of \<open>n\<close>\<close>
  "show_digits w n = map (\<lambda>i. char_of (48 + nat ((n div 10 ^ (w - 1 - i)) mod 10))) [0..<w]"

definition show_date :: "int \<Rightarrow> string" where
  "show_date z = (case civil_from_days z of
     (y, m, d) \<Rightarrow> show_digits 4 y @ ''-'' @ show_digits 2 m @ ''-'' @ show_digits 2 d)"

definition sample_to_period_str :: "string \<Rightarrow> int \<Rightarrow> string" where
  "sample_to_period_str f t =
     (let z = t div ns_per_day in
      case civil_from_days z of
        (y, m, d) \<Rightarrow>
          if f = ''M'' then show_digits 4 y @ ''-'' @ show_digits 2 m
          else if f = ''Q'' then show_digits 4 y @ ''Q'' @ show_digits 1 ((m - 1) div 3 + 1)
          else let monday = z - (z + 3) mod 7
               in show_date monday @ ''/'' @ show_date (monday + 6))"

definition sample_mean_round2 :: "rat list \<Rightarrow> rat" where
  "sample_mean_round2 vs =
     of_int (round_half_even (sum_list vs / of_nat (length vs) * 100)) / 100"

definition sample_Period_start_time :: "string \<Rightarrow> string \<Rightarrow> int stamp option" where
  \<comment> \<open>a month written \<open>YYYY-MM\<close> starts on its first day\<close>
  "sample_Period_start_time f s =
     (if f = ''M'' \<and> length s = 7 \<and> list_all ascii_digit (take 4 s) \<and> s ! 4 = CHR ''-''
         \<and> list_all ascii_digit (drop 5 s)
      then (case (py_int (take 4 s), py_int (drop 5 s)) of
              (Some y, Some m) \<Rightarrow>
                (case sample_Timestamp y m 1 of
                   Some t \<Rightarrow> if sample_min \<le> t \<and> t \<le> sample_max then Some (Naive t) else None
                 | None \<Rightarrow> None)
            | _ \<Rightarrow> None)
      else None)"

definition nat_strings :: "string list" where
  \<comment> \<open>the empty string and the spellings of a missing value: \<open>to_datetime\<close> reads them
      as \<open>NaT\<close>, with and without a format\<close>
  "nat_strings = [[], ''NaT'', ''nat'', ''NAT'', ''nan'', ''NaN'', ''NAN'']"

definition pandas_sample :: "int pandas" where
  "pandas_sample =
     \<lparr>Timestamp = sample_Timestamp,
      Timestamp_min = sample_min,
      Period_start_time = sample_Period_start_time,
      to_datetime_format = (\<lambda>f s. if s \<in> set nat_strings then Some NaT else None),
      to_datetime =
        (\<lambda>s. if s \<in> set nat_strings then Some NaT
             else if s = ''1677-09-21 00:12:43.145224193'' then Some (Naive sample_min)
             else None),
      to_period_str = sample_to_period_str,
      mean_round2 = sample_mean_round2\<rparr>"

definition blank :: "'t row" where
  \<comment> \<open>a row with every field missing\<close>
  "blank =
     \<lparr>Launch_Date = None, Status = NaN, Strategist = NaN, Editor_Designer = NaN, Product = NaN,
      Type = NaN, Format = NaN, Ad_time_to_ready_days = None, Editing_Duration_minutes = None,
      Launch_Month = NaN, Launch_YY_WW = NaN, Period = NaN, Editing_Duration_hours = None\<rparr>"

definition notion_columns :: "string list" where
  \<comment> \<open>the columns of the frame \<open>NotionService.process_results\<close> builds\<close>
  "notion_columns =
     [''Creative name'', ''Deadline'', ''Winner Market(s)'', ''Strategist'', ''Format'', ''Winner'',
      ''Editing End Time'', ''Launch Date'', ''Editing Start Time'', ''Type'', ''Product'', ''Status'',
      ''Editor/Designer'', ''Editing Duration (minutes)'', ''Launch Month'',
      ''Ad time to ready (days)'', ''Launch YY-WW'']"

section \<open>Example tables\<close>

definition win_rate_example :: "'t table" where
  \<comment> \<open>3 Winner, 2 Loser, 5 Launched and 1 Pending row\<close>
  "win_rate_example =
     \<lparr>columns = notion_columns,
      rows = replicate 3 (blank\<lparr>Status := Str ''Winner''\<rparr>)
           @ replicate 2 (blank\<lparr>Status := Str ''Loser''\<rparr>)
           @ replicate 5 (blank\<lparr>Status := Str ''Launched''\<rparr>)
           @ [blank\<lparr>Status := Str ''Pending''\<rparr>]\<rparr>"

definition campaign_table :: "int table" where
  \<comment> \<open>A creative launched on 2024-03-03, one launched on 2024-01-15, one not launched.\<close>
  "campaign_table =
     \<lparr>columns = notion_columns,
      rows =
        [blank\<lparr>Launch_Date := Some (19785 * ns_per_day), Launch_Month := Str ''2024-03'',
               Launch_YY_WW := Str ''24-09'', Status := Str ''Loser'', Strategist := Str ''Bob'',
               Product := Str ''V34'', Type := Str ''Static'', Format := Str ''Story''\<rparr>,
         blank\<lparr>Launch_Date := Some (19737 * ns_per_day), Launch_Month := Str ''2024-01'',
               Launch_YY_WW := Str ''24-03'', Status := Str ''Winner'', Strategist := Str ''Ann'',
               Product := Str [], Type := Str ''Video'', Format := Str ''Reel''\<rparr>,
         blank\<lparr>Launch_Month := Str [], Launch_YY_WW := Str [], Status := Str ''Pending'',
               Strategist := Str ''Cy'', Product := Str [], Type := Str ''Video'',
               Format := Str ''Reel''\<rparr>]\<rparr>"

definition undated_table :: "int table" where
  \<comment> \<open>One creative that was never launched, in a table without a Strategist column.\<close>
  "undated_table =
     \<lparr>columns = remove1 ''Strategist'' notion_columns,
      rows = [blank\<lparr>Launch_Month := Str [], Launch_YY_WW := Str [], Status := Str ''Pending''\<rparr>]\<rparr>"

section \<open>Properties stated in the words of the specification\<close>

definition spec_period_key :: "'t pandas \<Rightarrow> 't table \<Rightarrow> string \<Rightarrow> 't row \<Rightarrow> cell" where
  \<comment> \<open>The period key of a row as the specification words it: the precomputed field when
      the granularity asks for it and the table has it, else the period of Launch Date.\<close>
  "spec_period_key pd df period r =
     (if period = ''week'' \<and> has_column df ''Launch YY-WW'' then Launch_YY_WW r
      else if period = ''week'' then period_of_date pd ''W'' r
      else if period = ''quarter'' then period_of_date pd ''Q'' r
      else if has_column df ''Launch Month'' then Launch_Month r
      else period_of_date pd ''M'' r)"

definition aligned :: "'v chart \<Rightarrow> bool" where
  \<comment> \<open>every dataset has one datum per label\<close>
  "aligned ch \<longleftrightarrow> list_all (\<lambda>d. length (data d) = length (labels ch)) (datasets ch)"

definition zero_filled :: "'t table \<Rightarrow> ('t row \<Rightarrow> cell) \<Rightarrow> ('v::zero) chart \<Rightarrow> bool" where
  \<comment> \<open>a cell of the chart whose period and dimension value no row of the table has is 0\<close>
  "zero_filled df col ch \<longleftrightarrow>
     list_all (\<lambda>d. list_all (\<lambda>i.
         list_ex (\<lambda>r. cell_eq (Period r) (labels ch ! i) \<and> cell_eq (col r) (label d)) (rows df)
         \<or> (i < length (data d) \<and> data d ! i = 0))
       [0..<length (labels ch)]) (datasets ch)"

definition dated :: "'t table \<Rightarrow> 't table" where
  \<comment> \<open>\<open>df[df['Launch Date'].notna()]\<close>\<close>
  "dated df = df_filter (\<lambda>r. Launch_Date r \<noteq> None) df"

definition campaign_without_status :: "int table" where
  \<comment> \<open>the example table without its Status column\<close>
  "campaign_without_status = campaign_table\<lparr>columns := remove1 ''Status'' notion_columns\<rparr>"

definition keyed_by :: "('t row \<Rightarrow> cell) \<Rightarrow> 't table \<Rightarrow> 'v chart \<Rightarrow> bool" where
  \<comment> \<open>every label of the chart is the period key of a row of the table that has a
      Launch Date\<close>
  "keyed_by key df ch \<longleftrightarrow>
     list_all (\<lambda>l. list_ex (\<lambda>r. Launch_Date r \<noteq> None \<and> key r = l) (rows df)) (labels ch)"

definition launch_fields :: "'t row \<Rightarrow> 't option \<times> cell \<times> cell" where
  "launch_fields r = (Launch_Date r, Launch_Month r, Launch_YY_WW r)"

definition derived :: "'t table \<Rightarrow> 't table \<Rightarrow> bool" where
  \<comment> \<open>\<open>derived d df\<close>: the table \<open>d\<close> is what filters and assignments to other columns
      leave of the dated rows of \<open>df\<close>\<close>
  "derived d df \<longleftrightarrow>
     has_column d ''Launch Month'' = has_column df ''Launch Month''
     \<and> has_column d ''Launch YY-WW'' = has_column df ''Launch YY-WW''
     \<and> list_all (\<lambda>r'. list_ex (\<lambda>r. Launch_Date r \<noteq> None \<and> launch_fields r' = launch_fields r)
                         (rows df)) (rows d)"

section \<open>Properties of \<open>list.sort\<close>\<close>

lemma mset_binarysort:
  "binarysort lt run rest = Some ys \<Longrightarrow> mset ys = mset run + mset rest"
proof (induction rest arbitrary: run)
  case Nil
  then show ?case by simp
next
  case (Cons pivot rest)
  from Cons.prems obtain l where
    b: "binarysort lt (take l run @ pivot # drop l run) rest = Some ys"
    by (auto split: option.splits)
  have e: "mset (take l run) + mset (drop l run) = mset run"
    by (simp only: mset_append[symmetric] append_take_drop_id)
  from Cons.IH[OF b] show ?case by (simp add: e)
qed

lemma mset_list_sort:
  assumes "list_sort lt xs = Some ys"
  shows "mset ys = mset xs"
proof (cases "length xs < 2")
  case True
  then show ?thesis using assms by (simp add: list_sort_def)
next
  case False
  with assms obtain n descending where
    b: "binarysort lt (if descending then rev (take n xs) else take n xs) (drop n xs) = Some ys"
    by (auto simp: list_sort_def split: option.splits)
  have e: "mset (take n xs) + mset (drop n xs) = mset xs"
    by (simp only: mset_append[symmetric] append_take_drop_id)
  from mset_binarysort[OF b] show ?thesis by (simp add: e split: if_splits)
qed


















section \<open>Properties of the period normalizer\<close>


lemma mset_sort_periods [simp]:
  "mset (sort_periods_chronologically pd (Some periods)) = mset periods"
proof (cases "list_sort (\<lambda>x y. stamp_less (snd x) (snd y))
                (map (\<lambda>period. (period, period_key pd period)) periods)")
  case None
  then show ?thesis by (simp add: sort_periods_chronologically_def)
next
  case (Some ys)
  from mset_list_sort[OF Some] have "image_mset fst (mset ys) = mset periods"
    by (simp add: image_mset.compositionality comp_def)
  with Some show ?thesis by (simp add: sort_periods_chronologically_def)
qed

lemma set_sort_periods [simp]:
  "set (sort_periods_chronologically pd (Some periods)) = set periods"
  using mset_sort_periods[of pd periods] by (metis set_mset_mset)

lemma length_sort_periods [simp]:
  "length (sort_periods_chronologically pd (Some periods)) = length periods"
  using mset_sort_periods[of pd periods] by (metis size_mset)

lemma sort_periods_Nil [simp]: "sort_periods_chronologically pd (Some []) = []"
  by (simp add: sort_periods_chronologically_def)







lemma parse_2024Q1: "parse_period pd ''2024Q1'' = map_option Naive (Timestamp pd 2024 1 1)"
  by (simp add: parse_period_def parse_quarter_def py_split_def py_replace_Q_def py_int_def
      int_space_def ascii_digit_def digit_val_def)

lemma parse_2024_dash_Q1: "parse_period pd ''2024-Q1'' = None"
  by (simp add: parse_period_def parse_quarter_def py_split_def py_replace_Q_def py_int_def
      int_space_def ascii_digit_def digit_val_def)

lemma strip_2024_dash_Q1: "py_strip ''2024-Q1'' = ''2024-Q1''"
  by (simp add: py_strip_def py_isspace_def)


lemma sample_keys:
  "period_key pandas_sample (Str ''2024Q1'') = Naive 1704067200000000000"
  "period_key pandas_sample (Str ''2024Q3'') = Naive 1719792000000000000"
  "period_key pandas_sample (Str ''2024-Q1'') = Naive (- 9223372036854775807)"
  "period_key pandas_sample (Str ''garbage'') = Naive (- 9223372036854775807)"
  "period_key pandas_sample (Str ''1677-09-21 00:12:43.145224193'')
     = Naive (- 9223372036854775807)"
  "period_key pandas_sample (Str ''2024-01'') = Naive 1704067200000000000"
  "period_key pandas_sample (Str ''2024-03'') = Naive 1709251200000000000"
  "period_key pandas_sample (Str []) = NaT"
  by code_simp+





lemma sort_2024Q1_dash:
  "sort_periods_chronologically pandas_sample (Some [Str ''2024Q1'', Str ''2024-Q1''])
     = [Str ''2024-Q1'', Str ''2024Q1'']"
  by code_simp

text \<open>
  C2. The quarter rule reads \<open>2024Q1\<close> as the first day of January 2024. It does not read
  \<open>2024-Q1\<close>: after \<open>replace('Q', '-Q')\<close> the label is \<open>2024--Q1\<close>, the split at \<open>-Q\<close>
  leaves the year part \<open>2024-\<close>, and \<open>int\<close> rejects it. The label falls back to
  \<open>Timestamp.min\<close> and sorts before \<open>2024Q1\<close> instead of with it.
\<close>

theorem quarter_with_dash_is_not_parsed:
  "parse_period pd ''2024Q1'' = map_option Naive (Timestamp pd 2024 1 1)
   \<and> py_split (py_replace_Q ''2024-Q1'') ''-Q'' = [''2024-'', ''1'']
   \<and> py_int ''2024-'' = None
   \<and> parse_period pd ''2024-Q1'' = None
   \<and> period_key pd (Str ''2024-Q1'') = Naive (Timestamp_min pd)
   \<and> period_key pandas_sample (Str ''2024Q1'') = Naive 1704067200000000000
   \<and> period_key pandas_sample (Str ''2024-Q1'') = Naive (- 9223372036854775807)
   \<and> sort_periods_chronologically pandas_sample (Some [Str ''2024Q1'', Str ''2024-Q1''])
       = [Str ''2024-Q1'', Str ''2024Q1'']"
  by (simp add: sort_2024Q1_dash sample_keys parse_2024Q1 parse_2024_dash_Q1)
     (simp add: period_key_def strip_2024_dash_Q1 parse_2024_dash_Q1 py_split_def py_replace_Q_def
        py_int_def int_space_def ascii_digit_def digit_val_def)




section \<open>Properties of the float operations\<close>

lemma rhe_le: "x \<le> of_int n \<Longrightarrow> round_half_even x \<le> n"
proof -
  assume a: "x \<le> of_int n"
  have f: "\<lfloor>x\<rfloor> \<le> n" using a by (simp add: floor_le_iff) 
  have "x - of_int \<lfloor>x\<rfloor> \<noteq> 0 \<Longrightarrow> \<lfloor>x\<rfloor> + 1 \<le> n"
  proof -
    assume "x - of_int \<lfloor>x\<rfloor> \<noteq> 0"
    then have "of_int \<lfloor>x\<rfloor> < x" using of_int_floor_le[of x] by linarith
    with a have "(of_int \<lfloor>x\<rfloor> :: rat) < of_int n" by linarith
    then show ?thesis by simp
  qed
  with f show ?thesis
    by (auto simp: round_half_even_def Let_def)
qed

lemma rhe_ge: "of_int n \<le> x \<Longrightarrow> n \<le> round_half_even x"
proof -
  assume "of_int n \<le> x"
  then have "n \<le> \<lfloor>x\<rfloor>" by (simp add: le_floor_iff)
  then show ?thesis by (auto simp: round_half_even_def Let_def)
qed

lemma rhe_err: "\<bar>of_int (round_half_even x) - x\<bar> \<le> 1 / 2"
proof -
  have "of_int \<lfloor>x\<rfloor> \<le> x" "x < of_int \<lfloor>x\<rfloor> + 1" by linarith+
  then show ?thesis
    by (auto simp: round_half_even_def Let_def abs_le_iff)
qed

lemma ilog2_lower:
  assumes "0 < x"
  shows "2 powi (ilog2 x) \<le> x"
proof -
  obtain a b where q: "quotient_of x = (a, b)" by force
  have b: "0 < b" using quotient_of_denom_pos[OF q] .
  have x: "x = of_int a / of_int b" using quotient_of_div[OF q] .
  have a: "0 < a" using assms b x by (simp add: zero_less_divide_iff)
  have qa: "quotient_of \<bar>x\<bar> = (a, b)" using assms q by simp
  let ?d = "bitlen a - bitlen b"
  have la: "(2::rat) powi (bitlen a - 1) \<le> of_int a"
  proof -
    have "2 ^ nat (bitlen a - 1) \<le> a" using bitlen_bounds[OF a] by simp
    then have "(of_int (2 ^ nat (bitlen a - 1)) :: rat) \<le> of_int a" by (simp only: of_int_le_iff)
    moreover have "0 \<le> bitlen a - 1" using a by (simp add: bitlen_alt_def)
    ultimately show ?thesis by (simp add: power_int_def)
  qed
  have ub: "of_int b \<le> (2::rat) powi (bitlen b)"
  proof -
    have "b < 2 ^ nat (bitlen b)" using bitlen_bounds[OF b] by simp
    then have "(of_int b :: rat) < of_int (2 ^ nat (bitlen b))" by (simp only: of_int_less_iff)
    moreover have "0 \<le> bitlen b" by (rule bitlen_nonneg)
    ultimately show ?thesis by (simp add: power_int_def)
  qed
  have low: "(2::rat) powi (?d - 1) \<le> x"
  proof -
    have "(2::rat) powi (?d - 1) = 2 powi (bitlen a - 1) / 2 powi (bitlen b)"
      by (simp add: power_int_diff)
    also have "\<dots> \<le> of_int a / 2 powi (bitlen b)"
      using la by (simp add: divide_right_mono)
    also have "\<dots> \<le> of_int a / of_int b"
      using ub a b by (simp add: frac_le)
    finally show ?thesis using x by simp
  qed
  show ?thesis
    using low assms by (simp add: ilog2_def q Let_def)
qed

lemma ilog2_le:
  assumes "0 < x" "x \<le> 2 powi k"
  shows "ilog2 x \<le> k"
proof (rule ccontr)
  assume "\<not> ilog2 x \<le> k"
  then have "k < ilog2 x" by simp
  then have "(2::rat) powi k < 2 powi (ilog2 x)" by (intro power_int_strict_increasing) auto
  with ilog2_lower[OF assms(1)] assms(2) show False by linarith
qed

lemma fl_nonneg: "0 \<le> x \<Longrightarrow> 0 \<le> fl x"
proof -
  assume x: "0 \<le> x"
  have "0 \<le> round_half_even (x / 2 powi e)" for e
    by (rule rhe_ge) (use x in \<open>simp add: zero_le_divide_iff\<close>)
  then show ?thesis by (simp add: fl_def Let_def)
qed

lemma fl_le_grid:
  assumes "0 < x" "x \<le> of_int n * 2 powi c" "x \<le> 2 powi k" "k - 52 \<le> c" "- 1074 \<le> c"
  shows "fl x \<le> of_int n * 2 powi c"
proof -
  define e where "e = max (ilog2 x - 52) (- 1074)"
  have e: "e \<le> c" using ilog2_le[OF assms(1,3)] assms(4,5) by (simp add: e_def)
  have pos: "(0::rat) < 2 powi e" by simp
  have "x / 2 powi e \<le> of_int n * 2 powi c / 2 powi e"
    using assms(2) pos by (simp add: divide_right_mono)
  also have "\<dots> = of_int n * 2 powi (c - e)" by (simp add: power_int_diff)
  also have "\<dots> = of_int (n * 2 ^ nat (c - e))" using e by (simp add: power_int_def)
  finally have "round_half_even (x / 2 powi e) \<le> n * 2 ^ nat (c - e)" by (rule rhe_le)
  then have "(of_int (round_half_even (x / 2 powi e)) :: rat) \<le> of_int (n * 2 ^ nat (c - e))"
    by (simp only: of_int_le_iff)
  also have "\<dots> = of_int n * 2 powi (c - e)" using e by (simp add: power_int_def)
  finally have "(of_int (round_half_even (x / 2 powi e)) :: rat) * 2 powi e \<le> of_int n * 2 powi (c - e) * 2 powi e"
    using pos by (simp add: mult_right_mono)
  also have "\<dots> = of_int n * 2 powi c" by (simp add: power_int_diff)
  finally show ?thesis using assms(1) by (simp add: fl_def Let_def e_def)
qed

lemma fl_err:
  assumes "0 < x" "x \<le> 2 powi k" "- 1022 \<le> k"
  shows "\<bar>fl x - x\<bar> \<le> 2 powi (k - 53)"
proof -
  define e where "e = max (ilog2 x - 52) (- 1074)"
  have e: "e \<le> k - 52" using ilog2_le[OF assms(1,2)] assms(3) by (simp add: e_def)
  have pos: "(0::rat) < 2 powi e" by simp
  define y where "y = x / 2 powi e"
  have flx: "fl x = of_int (round_half_even y) * 2 powi e"
    using assms(1) by (simp add: fl_def Let_def e_def y_def)
  have xy: "x = y * 2 powi e" by (simp add: y_def)
  have "fl x - x = (of_int (round_half_even y) - y) * 2 powi e"
  proof -
    have "fl x - x = of_int (round_half_even y) * 2 powi e - y * 2 powi e"
      using flx xy by simp
    then show ?thesis by (simp add: algebra_simps)
  qed
  then have "\<bar>fl x - x\<bar> = \<bar>of_int (round_half_even y) - y\<bar> * 2 powi e"
    by (simp add: abs_mult)
  also have "\<dots> \<le> 1 / 2 * 2 powi e"
    using rhe_err[of y] pos by (simp add: mult_right_mono)
  also have "\<dots> = 2 powi (e - 1)" by (simp add: power_int_diff)
  also have "\<dots> \<le> 2 powi (k - 53)" using e by (intro power_int_increasing) auto
  finally show ?thesis .
qed

lemma fl_zero [simp]: "fl 0 = 0"
  by (simp add: fl_def)

lemma fl_unit_interval:
  assumes "0 \<le> x" "x \<le> 1"
  shows "0 \<le> fl x" "fl x \<le> 1" "\<bar>fl x - x\<bar> \<le> 2 powi (- 53)"
proof -
  show "0 \<le> fl x" using assms(1) by (rule fl_nonneg)
  show "fl x \<le> 1"
  proof (cases "x = 0")
    case False
    then have "0 < x" using assms(1) by simp
    from fl_le_grid[OF this, of 1 0 0] assms(2) show ?thesis by simp
  qed simp
  show "\<bar>fl x - x\<bar> \<le> 2 powi (- 53)"
  proof (cases "x = 0")
    case False
    then have "0 < x" using assms(1) by simp
    from fl_err[OF this, of 0] assms(2) show ?thesis by simp
  qed simp
qed

lemma fl_percent:
  assumes "0 \<le> x" "x \<le> 100"
  shows "0 \<le> fl x" "fl x \<le> 100" "\<bar>fl x - x\<bar> \<le> 2 powi (- 46)"
proof -
  show "0 \<le> fl x" using assms(1) by (rule fl_nonneg)
  show "fl x \<le> 100"
  proof (cases "x = 0")
    case False
    then have "0 < x" using assms(1) by simp
    from fl_le_grid[OF this, of 100 0 7] assms(2) show ?thesis by simp
  qed simp
  show "\<bar>fl x - x\<bar> \<le> 2 powi (- 46)"
  proof (cases "x = 0")
    case False
    then have "0 < x" using assms(1) by simp
    from fl_err[OF this, of 7] assms(2) show ?thesis by simp
  qed simp
qed

lemma round_two_places:
  assumes "0 \<le> p" "p \<le> 100"
  defines "r \<equiv> (of_int (round_half_even (p * 100)) :: rat) / 100"
  shows "0 \<le> r" "r \<le> 100" "\<bar>r - p\<bar> \<le> 1 / 200"
proof -
  have "0 \<le> round_half_even (p * 100)"
    by (rule rhe_ge) (use assms(1) in simp)
  then show "0 \<le> r" by (simp add: r_def)
  have "round_half_even (p * 100) \<le> 10000"
    by (rule rhe_le) (use assms(2) in simp)
  then have "(of_int (round_half_even (p * 100)) :: rat) \<le> of_int 10000"
    by (simp only: of_int_le_iff)
  then show "r \<le> 100" by (simp add: r_def)
  have "r - p = (of_int (round_half_even (p * 100)) - p * 100) / 100"
    by (simp add: r_def diff_divide_distrib)
  then have "\<bar>r - p\<bar> = \<bar>of_int (round_half_even (p * 100)) - p * 100\<bar> / \<bar>100\<bar>"
    by (simp only: abs_divide)
  then have "\<bar>r - p\<bar> = \<bar>of_int (round_half_even (p * 100)) - p * 100\<bar> / 100"
    by (simp only: abs_numeral)
  also have "\<dots> \<le> (1 / 2) / 100"
    using rhe_err[of "p * 100"] by (simp add: divide_right_mono)
  finally show "\<bar>r - p\<bar> \<le> 1 / 200" by simp
qed

lemma win_rate_value:
  fixes w t :: nat
  assumes "w \<le> t" "0 < t"
  defines "x \<equiv> (of_nat w :: rat) / of_nat t"
  defines "v \<equiv> py_round2 (py_fmul (fl x) 100)"
  shows "0 \<le> v" "v \<le> 100" "\<bar>v - 100 * x\<bar> \<le> 1 / 200 + 1 / 10 ^ 13"
proof -
  have x: "0 \<le> x" "x \<le> 1" using assms(1,2) by (simp_all add: x_def)
  define q where "q = fl x"
  define p where "p = fl (q * 100)"
  define r where "r = (of_int (round_half_even (p * 100)) :: rat) / 100"
  have v: "v = fl r" by (simp add: v_def py_round2_def py_fmul_def r_def p_def q_def)
  note Q = fl_unit_interval[OF x, folded q_def]
  have q100: "0 \<le> q * 100" "q * 100 \<le> 100" using Q(1,2) by simp_all
  note P = fl_percent[OF q100, folded p_def]
  note R = round_two_places[OF P(1,2), folded r_def]
  note V = fl_percent[OF R(1,2), folded v]
  show "0 \<le> v" "v \<le> 100" by (rule V)+
  have "q * 100 - 100 * x = 100 * (q - x)" by (simp add: algebra_simps)
  then have "\<bar>q * 100 - 100 * x\<bar> = \<bar>100\<bar> * \<bar>q - x\<bar>" by (simp only: abs_mult)
  then have "\<bar>q * 100 - 100 * x\<bar> = 100 * \<bar>q - x\<bar>" by (simp only: abs_numeral)
  then have e1: "\<bar>q * 100 - 100 * x\<bar> \<le> 100 * 2 powi (- 53)" using Q(3) by simp
  have "\<bar>v - 100 * x\<bar> \<le> \<bar>v - r\<bar> + \<bar>r - p\<bar> + \<bar>p - q * 100\<bar> + \<bar>q * 100 - 100 * x\<bar>"
    by linarith
  also have "\<dots> \<le> 2 powi (- 46) + 1 / 200 + 2 powi (- 46) + 100 * 2 powi (- 53)"
    using V(3) R(3) P(3) e1 by linarith
  also have "\<dots> \<le> 1 / 200 + 1 / 10 ^ 13" by (simp add: power_int_minus_divide)
  finally show "\<bar>v - 100 * x\<bar> \<le> 1 / 200 + 1 / 10 ^ 13" .
qed

lemma py_truediv_counts:
  fixes w t :: nat
  assumes "w \<le> t" "0 < t"
  shows "py_truediv (int w) (int t) = Inr (fl (of_nat w / of_nat t))"
proof -
  have "0 \<le> (of_nat w :: rat) / of_nat t" "(of_nat w :: rat) / of_nat t \<le> 1"
    using assms by simp_all
  from fl_unit_interval(1,2)[OF this]
  have "\<bar>fl (of_nat w / of_nat t)\<bar> \<le> 1" by simp
  moreover have "(1::rat) < 2 ^ 1024" by simp
  ultimately have "\<not> 2 ^ 1024 \<le> \<bar>fl (of_nat w / of_nat t)\<bar>" by linarith
  then show ?thesis using assms(2) by (simp add: py_truediv_def)
qed

section \<open>Properties of the win rate\<close>

lemma calculate_win_rate_eq:
  assumes "has_column df ''Status''"
  shows "calculate_win_rate df =
     Inr (let winners = length (filter (\<lambda>r. str_lower_eq (Status r) ''winner'') (rows df));
              losers = length (filter (\<lambda>r. str_lower_eq (Status r) ''loser'') (rows df));
              launched = length (filter (\<lambda>r. str_lower_eq (Status r) ''launched'') (rows df));
              total = winners + losers + launched
          in if total = 0 then 0
             else py_round2 (py_fmul (fl (of_nat winners / of_nat total)) 100))"
proof (cases "df_empty df")
  case True
  then have "rows df = []" using assms by (auto simp: df_empty_def has_column_def)
  then show ?thesis using True by (simp add: calculate_win_rate_def)
next
  case False
  have key: "(case py_truediv (int w) (int t) of
                Inl e \<Rightarrow> Inl e
              | Inr q \<Rightarrow> Inr (py_round2 (py_fmul q 100)))
             = Inr (py_round2 (py_fmul (fl (of_nat w / of_nat t)) 100))"
    if "w \<le> t" "t \<noteq> 0" for w t :: nat
    using that by (simp add: py_truediv_counts)
  show ?thesis
    using False assms by (simp add: calculate_win_rate_def Let_def key del: of_nat_add)
qed

lemma calculate_win_rate_range:
  assumes "calculate_win_rate df = Inr v"
  shows "0 \<le> v \<and> v \<le> 100"
proof (cases "df_empty df")
  case True
  then show ?thesis using assms by (simp add: calculate_win_rate_def)
next
  case False
  then have st: "has_column df ''Status''"
    using assms by (auto simp: calculate_win_rate_def split: if_splits)
  define w where "w = length (filter (\<lambda>r. str_lower_eq (Status r) ''winner'') (rows df))"
  define t where "t = w + length (filter (\<lambda>r. str_lower_eq (Status r) ''loser'') (rows df))
                        + length (filter (\<lambda>r. str_lower_eq (Status r) ''launched'') (rows df))"
  have v: "v = (if t = 0 then 0 else py_round2 (py_fmul (fl (of_nat w / of_nat t)) 100))"
    using assms unfolding calculate_win_rate_eq[OF st]
    by (auto simp add: Let_def w_def t_def simp del: of_nat_add split: if_splits)
  have "w \<le> t" by (simp add: t_def)
  then show ?thesis
    using win_rate_value(1,2)[of w t] by (cases "t = 0") (simp_all add: v)
qed

lemma calculate_win_rate_total:
  assumes "has_column df ''Status'' \<or> df_empty df"
  shows "\<exists>v. calculate_win_rate df = Inr v"
proof (cases "df_empty df")
  case True
  then show ?thesis by (simp add: calculate_win_rate_def)
next
  case False
  then show ?thesis using assms calculate_win_rate_eq by blast
qed

lemma lower_status_words:
  "py_lower ''Winner'' = ''winner''"
  "py_lower ''Loser'' = ''loser''"
  "py_lower ''Launched'' = ''launched''"
  "py_lower ''Pending'' = ''pending''"
  by code_simp+

lemma float_three_tenths:
  "fl (3 / 10) = 5404319552844595 / 18014398509481984"
  "py_fmul (5404319552844595 / 18014398509481984) 100 = 30"
  "py_round2 30 = 30"
  by code_simp+

lemma win_rate_example_value: "calculate_win_rate win_rate_example = Inr 30"
  by (simp add: calculate_win_rate_def win_rate_example_def notion_columns_def df_empty_def
      has_column_def str_lower_eq_def lower_status_words blank_def py_truediv_def
      float_three_tenths Let_def)

lemma traverse_Inr_iff:
  "traverse f xs = Inr ys \<longleftrightarrow> list_all2 (\<lambda>x y. f x = Inr y) xs ys"
proof (induction xs arbitrary: ys)
  case Nil
  show ?case by auto
next
  case (Cons x xs)
  show ?case
    by (auto simp: list_all2_Cons1 Cons.IH[symmetric] split: sum.splits)
qed

lemma traverse_total:
  assumes "\<forall>x\<in>set xs. \<exists>y. f x = Inr y"
  shows "\<exists>ys. traverse f xs = Inr ys"
  using assms
proof (induction xs)
  case Nil
  show ?case by simp
next
  case (Cons x xs)
  then obtain y ys where "f x = Inr y" "traverse f xs = Inr ys" by auto
  then show ?case by simp
qed

lemma lookup_Inr: "lookup result p = Inr v \<Longrightarrow> (p, v) \<in> set result"
  by (auto simp: lookup_def split: option.splits dest: map_of_SomeD)

lemma series_chart_Inr:
  assumes "series_chart pd result = Inr ch"
  shows "\<exists>ds. ch = Single (sort_periods_chronologically pd (Some (map fst result))) ds
           \<and> length ds = length result \<and> set ds \<subseteq> snd ` set result"
proof -
  let ?ls = "sort_periods_chronologically pd (Some (map fst result))"
  obtain ds where ds: "traverse (lookup result) ?ls = Inr ds" "ch = Single ?ls ds"
    using assms by (auto simp: series_chart_def Let_def split: sum.splits)
  then have l2: "list_all2 (\<lambda>p v. lookup result p = Inr v) ?ls ds"
    by (simp add: traverse_Inr_iff)
  then have "length ds = length result"
    by (auto dest: list_all2_lengthD)
  moreover have "set ds \<subseteq> snd ` set result"
  proof
    fix v assume "v \<in> set ds"
    then obtain p where "lookup result p = Inr v"
      using l2 by (auto simp: list_all2_conv_all_nth in_set_conv_nth)
    then show "v \<in> snd ` set result" by (force dest: lookup_Inr)
  qed
  ultimately show ?thesis using ds(2) by blast
qed

lemma series_chart_total:
  "\<exists>ds. series_chart pd result
          = Inr (Single (sort_periods_chronologically pd (Some (map fst result))) ds)"
proof -
  have "\<exists>v. lookup result p = Inr v"
    if "p \<in> set (sort_periods_chronologically pd (Some (map fst result)))" for p
  proof -
    from that have "p \<in> fst ` set result" by simp
    then have "map_of result p \<noteq> None" by (simp add: map_of_eq_None_iff)
    then show ?thesis by (auto simp: lookup_def)
  qed
  then obtain ds where
    "traverse (lookup result) (sort_periods_chronologically pd (Some (map fst result))) = Inr ds"
    using traverse_total[of _ "lookup result"] by blast
  then show ?thesis by (simp add: series_chart_def)
qed

lemma series_chart_Nil [simp]: "series_chart pd [] = Inr (Single [] [])"
  by (simp add: series_chart_def)

lemma win_rate_by_period_range:
  assumes "get_win_rate_by_period pd df period = Inr (Single ls ds)" "x \<in> set ds"
  shows "0 \<le> x \<and> x \<le> 100"
proof (cases "\<not> has_column df ''Launch Date'' \<or> df_empty df")
  case True
  then show ?thesis using assms by (auto simp: get_win_rate_by_period_def)
next
  case False
  define df' where "df' = assign_period pd period (df_filter (\<lambda>r. Launch_Date r \<noteq> None) df)"
  from False assms(1) obtain rates where
    r: "traverse (\<lambda>period_val. calculate_win_rate (group df' period_val)) (groupby_keys df')
          = Inr rates"
    and c: "series_chart pd (zip (map Str (groupby_keys df')) rates) = Inr (Single ls ds)"
    by (auto simp: get_win_rate_by_period_def Let_def df'_def split: sum.splits)
  from series_chart_Inr[OF c] assms(2)
  have "x \<in> snd ` set (zip (map Str (groupby_keys df')) rates)" by auto
  then have "x \<in> set rates" by (auto dest: set_zip_rightD)
  then obtain k where "calculate_win_rate (group df' k) = Inr x"
    using r by (auto simp: traverse_Inr_iff list_all2_conv_all_nth in_set_conv_nth)
  then show ?thesis by (rule calculate_win_rate_range)
qed

lemma win_rate_by_dimension_range:
  assumes "win_rate_by_dimension pd name col df period = Inr ch"
    "d \<in> set (datasets ch)" "x \<in> set (data d)"
  shows "0 \<le> x \<and> x \<le> 100"
proof (cases "\<not> has_column df ''Launch Date'' \<or> \<not> has_column df name \<or> df_empty df")
  case True
  then show ?thesis using assms by (auto simp: win_rate_by_dimension_def)
next
  case False
  define df' where "df' = assign_period pd period (df_filter (\<lambda>r. Launch_Date r \<noteq> None) df)"
  define periods where
    "periods = sort_periods_chronologically pd (Some (unique (map Period (rows df'))))"
  define one where "one = (\<lambda>v.
     case traverse (\<lambda>period_val. calculate_win_rate
              (df_filter (\<lambda>r. cell_eq (Period r) period_val \<and> cell_eq (col r) v) df')) periods of
       Inl e \<Rightarrow> Inl e
     | Inr ds \<Rightarrow> Inr \<lparr>label = v, data = ds, style = Line 2 False\<rparr>)"
  from False assms(1) obtain dss where
    t: "traverse one (unique (dropna (map col (rows df')))) = Inr dss" and ch: "ch = Multi periods dss"
    by (auto simp: win_rate_by_dimension_def Let_def df'_def periods_def one_def split: sum.splits)
  from assms(2) ch have "d \<in> set dss" by simp
  then obtain v where "one v = Inr d"
    using t by (auto simp: traverse_Inr_iff list_all2_conv_all_nth in_set_conv_nth)
  then obtain ds where
    "traverse (\<lambda>period_val. calculate_win_rate
        (df_filter (\<lambda>r. cell_eq (Period r) period_val \<and> cell_eq (col r) v) df')) periods = Inr ds"
    and "data d = ds"
    by (auto simp: one_def split: sum.splits)
  with assms(3) obtain p where
    "calculate_win_rate (df_filter (\<lambda>r. cell_eq (Period r) p \<and> cell_eq (col r) v) df') = Inr x"
    by (auto simp: traverse_Inr_iff list_all2_conv_all_nth in_set_conv_nth)
  then show ?thesis by (rule calculate_win_rate_range)
qed



text \<open>
  C10. Whenever \<open>calculate_win_rate\<close> returns, the value is between 0 and 100: the
  winner count is at most the total, and the empty cases return 0. It returns on every
  table that is empty or has a Status column. Hence every number of a win-rate series
  is between 0 and 100.
\<close>

theorem win_rate_between_0_and_100:
  "(\<forall>v. calculate_win_rate df = Inr v \<longrightarrow> 0 \<le> v \<and> v \<le> 100)
   \<and> (has_column df ''Status'' \<or> df_empty df \<longrightarrow> (\<exists>v. calculate_win_rate df = Inr v))
   \<and> length (filter (\<lambda>r. str_lower_eq (Status r) ''winner'') (rows df))
        \<le> length (filter (\<lambda>r. str_lower_eq (Status r) ''winner'') (rows df))
          + length (filter (\<lambda>r. str_lower_eq (Status r) ''loser'') (rows df))
          + length (filter (\<lambda>r. str_lower_eq (Status r) ''launched'') (rows df))
   \<and> (\<forall>ls ds. get_win_rate_by_period pd df period = Inr (Single ls ds)
         \<longrightarrow> (\<forall>x\<in>set ds. 0 \<le> x \<and> x \<le> 100))
   \<and> (\<forall>ch. get_win_rate_by_strategist pd df period = Inr ch
         \<longrightarrow> (\<forall>d\<in>set (datasets ch). \<forall>x\<in>set (data d). 0 \<le> x \<and> x \<le> 100))
   \<and> (\<forall>ch. get_win_rate_by_product pd df period = Inr ch
         \<longrightarrow> (\<forall>d\<in>set (datasets ch). \<forall>x\<in>set (data d). 0 \<le> x \<and> x \<le> 100))
   \<and> (\<forall>ch. get_win_rate_by_ad_type pd df period = Inr ch
         \<longrightarrow> (\<forall>d\<in>set (datasets ch). \<forall>x\<in>set (data d). 0 \<le> x \<and> x \<le> 100))"
  unfolding get_win_rate_by_strategist_def get_win_rate_by_product_def
    get_win_rate_by_ad_type_def
  using calculate_win_rate_range[of df] calculate_win_rate_total[of df]
    win_rate_by_period_range[of pd df period]
    win_rate_by_dimension_range[of pd _ _ df period]
  by (intro conjI allI impI ballI) (blast | simp)+

theorem win_rate_between_0_and_100_witness:
  "calculate_win_rate (win_rate_example :: int table) = Inr 30
   \<and> (0::rat) \<le> 30 \<and> (30::rat) \<le> 100"
  using win_rate_between_0_and_100 [of "win_rate_example :: int table"]
  by (simp add: win_rate_example_value)

theorem quarter_with_dash_is_not_parsed_witness:
  "parse_period pandas_sample ''2024Q1'' = Some (Naive 1704067200000000000)
   \<and> parse_period pandas_sample ''2024-Q1'' = None
   \<and> period_key pandas_sample (Str ''2024-Q1'') = Naive (Timestamp_min pandas_sample)"
proof -
  have "sample_Timestamp 2024 1 1 = Some 1704067200000000000"
    by (simp add: sample_Timestamp_def days_in_month_def days_from_civil_def ns_per_day_def)
  then show ?thesis
    using quarter_with_dash_is_not_parsed [of pandas_sample]
    by (simp add: pandas_sample_def)
qed

section \<open>Properties of the aggregation engine\<close>

lemma has_column_df_filter [simp]: "has_column (df_filter keep df) c = has_column df c"
  by (simp add: has_column_def df_filter_def)

lemma rows_df_filter [simp]: "rows (df_filter keep df) = filter keep (rows df)"
  by (simp add: df_filter_def)

lemma has_column_df_assign [simp]:
  "has_column (df_assign name f df) c \<longleftrightarrow> has_column df c \<or> c = name"
  by (auto simp: has_column_def df_assign_def)

lemma rows_df_assign [simp]: "rows (df_assign name f df) = map f (rows df)"
  by (simp add: df_assign_def)

lemma has_column_status_filter [simp]: "has_column (status_filter status df) c = has_column df c"
  by (simp add: status_filter_def)

lemma df_empty_iff: "has_column df c \<Longrightarrow> df_empty df \<longleftrightarrow> rows df = []"
  by (auto simp: df_empty_def has_column_def)

lemma assign_period_eq:
  "assign_period pd period df
     = df_assign ''Period'' (\<lambda>r. r\<lparr>Period := spec_period_key pd df period r\<rparr>) df"
  by (simp add: assign_period_def spec_period_key_def)

lemma assign_period_ratio_eq:
  "assign_period_ratio pd period df
     = assign_period pd (if period = ''week'' then ''month'' else period) df"
  by (simp add: assign_period_ratio_def assign_period_def)

lemma set_unique [simp]: "set (unique xs) = set xs"
  by (simp add: unique_def)

lemma set_dropna [simp]: "set (dropna xs) = set xs - {NaN}"
  by (auto simp: dropna_def)

lemma unique_Nil [simp]: "unique [] = []"
  by (simp add: unique_def)

lemma dropna_Nil [simp]: "dropna [] = []"
  by (simp add: dropna_def)

lemma set_map_filter: "set (List.map_filter f xs) = {y. \<exists>x\<in>set xs. f x = Some y}"
  by (induction xs) (auto simp: List.map_filter_simps split: option.splits)

lemma set_groupby_keys: "set (groupby_keys df) = {s. \<exists>r\<in>set (rows df). Period r = Str s}"
proof -
  have "(case Period r of NaN \<Rightarrow> None | Str s \<Rightarrow> Some s) = Some s \<longleftrightarrow> Period r = Str s"
    for r :: "'a row" and s
    by (cases "Period r") auto
  then show ?thesis by (simp add: groupby_keys_def set_map_filter)
qed

lemma groupby_keys_Nil [simp]: "rows df = [] \<Longrightarrow> groupby_keys df = []"
  by (simp add: groupby_keys_def List.map_filter_def)

lemma win_rate_by_period_labels:
  assumes "has_column df ''Launch Date''" "\<not> df_empty df"
    and "get_win_rate_by_period pd df period = Inr ch"
  shows "labels ch
     = sort_periods_chronologically pd
         (Some (map Str (groupby_keys (assign_period pd period (dated df)))))"
proof -
  define df' where "df' = assign_period pd period (dated df)"
  from assms obtain rates where
    r: "traverse (\<lambda>period_val. calculate_win_rate (group df' period_val)) (groupby_keys df')
          = Inr rates"
    and c: "series_chart pd (zip (map Str (groupby_keys df')) rates) = Inr ch"
    by (auto simp: get_win_rate_by_period_def Let_def df'_def dated_def split: sum.splits)
  from r have "length rates = length (groupby_keys df')"
    by (auto simp: traverse_Inr_iff dest: list_all2_lengthD)
  then have "map fst (zip (map Str (groupby_keys df')) rates) = map Str (groupby_keys df')"
    by simp
  with series_chart_Inr[OF c] show ?thesis by (auto simp: df'_def)
qed

text \<open>
  C7. A ratio breakdown asked for weeks is the same breakdown asked for months. A win rate
  by period asked for weeks has genuine week keys: the Launch YY-WW value of each dated row
  when the table has that column, else the week period of its Launch Date.
\<close>

theorem ratio_week_degrades_to_month:
  "get_ad_type_ratio pd df ''week'' status = get_ad_type_ratio pd df ''month'' status
   \<and> get_product_ratio pd df ''week'' status = get_product_ratio pd df ''month'' status
   \<and> get_format_ratio pd df ''week'' status = get_format_ratio pd df ''month'' status
   \<and> rows (assign_period pd ''week'' df)
       = map (\<lambda>r. r\<lparr>Period := (if has_column df ''Launch YY-WW'' then Launch_YY_WW r
                                  else period_of_date pd ''W'' r)\<rparr>) (rows df)
   \<and> (has_column df ''Launch Date'' \<and> \<not> df_empty df \<longrightarrow>
        (\<forall>ch. get_win_rate_by_period pd df ''week'' = Inr ch \<longrightarrow>
           set (labels ch)
             = {Str s |s. \<exists>r\<in>set (rows df). Launch_Date r \<noteq> None
                   \<and> (if has_column df ''Launch YY-WW'' then Launch_YY_WW r
                       else period_of_date pd ''W'' r) = Str s}))"
proof (intro conjI impI allI)
  show "get_ad_type_ratio pd df ''week'' status = get_ad_type_ratio pd df ''month'' status"
    by (simp add: get_ad_type_ratio_def ratio_by_dimension_def assign_period_ratio_eq)
  show "get_format_ratio pd df ''week'' status = get_format_ratio pd df ''month'' status"
    by (simp add: get_format_ratio_def ratio_by_dimension_def assign_period_ratio_eq)
  show "get_product_ratio pd df ''week'' status = get_product_ratio pd df ''month'' status"
    by (simp add: get_product_ratio_def assign_period_ratio_eq)
  show "rows (assign_period pd ''week'' df)
       = map (\<lambda>r. r\<lparr>Period := (if has_column df ''Launch YY-WW'' then Launch_YY_WW r
                                  else period_of_date pd ''W'' r)\<rparr>) (rows df)"
    by (simp add: assign_period_eq spec_period_key_def)
next
  fix ch
  assume a: "has_column df ''Launch Date'' \<and> \<not> df_empty df"
    and r: "get_win_rate_by_period pd df ''week'' = Inr ch"
  have "labels ch
     = sort_periods_chronologically pd
         (Some (map Str (groupby_keys (assign_period pd ''week'' (dated df)))))"
    using a r by (intro win_rate_by_period_labels) simp_all
  then have "set (labels ch) = Str ` set (groupby_keys (assign_period pd ''week'' (dated df)))"
    by simp
  also have "\<dots> = {Str s |s. \<exists>r\<in>set (rows df). Launch_Date r \<noteq> None
                   \<and> (if has_column df ''Launch YY-WW'' then Launch_YY_WW r
                       else period_of_date pd ''W'' r) = Str s}"
    by (auto simp: set_groupby_keys assign_period_eq spec_period_key_def dated_def image_iff)
  finally show "set (labels ch)
             = {Str s |s. \<exists>r\<in>set (rows df). Launch_Date r \<noteq> None
                   \<and> (if has_column df ''Launch YY-WW'' then Launch_YY_WW r
                       else period_of_date pd ''W'' r) = Str s}" .
qed

lemma py_truediv_code [code]:
  "py_truediv a b =
     (if b = 0 then Inl ZeroDivisionError
      else if 179769313486231590772930519078902473361797697894230657273430081157732675805500963132708477322407536021120113879871393357658789768814416622492847430639474124377767893424865485276302219601246094119453082952085005768838150682342462881473913110540827237163350510684586298239947245938479716304835356329624224137216
                \<le> \<bar>fl (of_int a / of_int b)\<bar>
      then Inl OverflowError
      else Inr (fl (of_int a / of_int b)))"
  by (simp add: py_truediv_def)

lemma campaign_columns:
  "has_column campaign_table ''Launch Date''"
  "has_column campaign_table ''Status''"
  "has_column campaign_table ''Launch Month''"
  "has_column campaign_table ''Launch YY-WW''"
  "\<not> df_empty campaign_table"
  by (simp_all add: has_column_def df_empty_def campaign_table_def notion_columns_def)

lemma campaign_ad_type_ratio:
  "get_ad_type_ratio pandas_sample campaign_table ''week'' None =
     Inr (Multi [Str ''2024-01'', Str ''2024-03'']
       [\<lparr>label = Str ''Static'', data = [0, 1], style = Bar ''#FF6384''\<rparr>,
        \<lparr>label = Str ''Video'', data = [1, 0], style = Bar ''#36A2EB''\<rparr>])"
  by code_simp

lemma campaign_win_rate_by_week:
  "get_win_rate_by_period pandas_sample campaign_table ''week''
     = Inr (Single [Str ''24-03'', Str ''24-09''] [100, 0])"
  by code_simp

theorem ratio_week_degrades_to_month_witness:
  "has_column campaign_table ''Launch Date'' \<and> \<not> df_empty campaign_table
   \<and> get_ad_type_ratio pandas_sample campaign_table ''month'' None =
       Inr (Multi [Str ''2024-01'', Str ''2024-03'']
         [\<lparr>label = Str ''Static'', data = [0, 1], style = Bar ''#FF6384''\<rparr>,
          \<lparr>label = Str ''Video'', data = [1, 0], style = Bar ''#36A2EB''\<rparr>])
   \<and> get_win_rate_by_period pandas_sample campaign_table ''week''
       = Inr (Single [Str ''24-03'', Str ''24-09''] [100, 0])"
proof -
  from ratio_week_degrades_to_month [of pandas_sample campaign_table None]
  have "get_ad_type_ratio pandas_sample campaign_table ''week'' None
          = get_ad_type_ratio pandas_sample campaign_table ''month'' None"
    by (elim conjE)
  then show ?thesis
    using campaign_columns(1,5) campaign_ad_type_ratio campaign_win_rate_by_week by simp
qed

lemma aligned_Multi:
  "aligned (Multi ls dss) \<longleftrightarrow> (\<forall>d\<in>set dss. length (data d) = length ls)"
  by (simp add: aligned_def list_all_iff)

lemma zero_filled_Multi:
  "zero_filled df col (Multi ls dss) \<longleftrightarrow>
     (\<forall>d\<in>set dss. \<forall>i<length ls.
        (\<exists>r\<in>set (rows df). cell_eq (Period r) (ls ! i) \<and> cell_eq (col r) (label d))
        \<or> (i < length (data d) \<and> data d ! i = 0))"
  unfolding zero_filled_def list_all_iff list_ex_iff
  by (simp add: Ball_def)


lemma win_rate_by_dimension_total:
  assumes "has_column df ''Status''"
  shows "\<exists>ch. win_rate_by_dimension pd name col df period = Inr ch"
proof -
  define df' where "df' = assign_period pd period (df_filter (\<lambda>r. Launch_Date r \<noteq> None) df)"
  define periods where
    "periods = sort_periods_chronologically pd (Some (unique (map Period (rows df'))))"
  have st: "has_column (df_filter keep df') ''Status''" for keep
    using assms by (simp add: df'_def assign_period_eq)
  have "\<exists>d. (case traverse (\<lambda>period_val. calculate_win_rate
                  (df_filter (\<lambda>r. cell_eq (Period r) period_val \<and> cell_eq (col r) v) df')) periods of
               Inl e \<Rightarrow> Inl e
             | Inr ds \<Rightarrow> Inr \<lparr>label = v, data = ds, style = Line 2 False\<rparr>) = Inr d" for v
  proof -
    have "\<exists>ds. traverse (\<lambda>period_val. calculate_win_rate
                  (df_filter (\<lambda>r. cell_eq (Period r) period_val \<and> cell_eq (col r) v) df')) periods
            = Inr ds"
      by (rule traverse_total) (use st calculate_win_rate_total in blast)
    then show ?thesis by auto
  qed
  then have "\<exists>dss. traverse (\<lambda>v. case traverse (\<lambda>period_val. calculate_win_rate
                  (df_filter (\<lambda>r. cell_eq (Period r) period_val \<and> cell_eq (col r) v) df')) periods of
               Inl e \<Rightarrow> Inl e
             | Inr ds \<Rightarrow> Inr \<lparr>label = v, data = ds, style = Line 2 False\<rparr>)
           (unique (dropna (map col (rows df')))) = Inr dss"
    by (intro traverse_total) blast
  then show ?thesis
    by (auto simp: win_rate_by_dimension_def Let_def df'_def periods_def)
qed

lemma ratio_by_dimension_shape:
  "\<exists>ch. ratio_by_dimension pd name col df period status = Inr ch \<and> aligned ch
        \<and> zero_filled (assign_period_ratio pd period (status_filter status (dated df))) col ch"
proof (cases "\<not> has_column df ''Launch Date'' \<or> \<not> has_column df name \<or> df_empty df")
  case True
  then have "ratio_by_dimension pd name col df period status = Inr (Multi [] [])"
    by (auto simp: ratio_by_dimension_def)
  then show ?thesis by (simp add: aligned_Multi zero_filled_Multi)
next
  case False
  define df' where "df' = assign_period_ratio pd period (status_filter status (dated df))"
  define periods where
    "periods = sort_periods_chronologically pd (Some (unique (map Period (rows df'))))"
  define dss where "dss = map (\<lambda>(idx, v).
                        \<lparr>label = v,
                         data = map (\<lambda>period_val. count_cell df' col period_val v) periods,
                         style = Bar (colors ! (idx mod length colors))\<rparr>)
                     (enumerate 0 (unique (dropna (map col (rows df')))))"
  have r: "ratio_by_dimension pd name col df period status = Inr (Multi periods dss)"
    using False by (simp add: ratio_by_dimension_def Let_def df'_def dated_def periods_def dss_def)
  have each: "length (data d) = length periods
      \<and> (\<forall>i<length periods.
            (\<exists>r\<in>set (rows df'). cell_eq (Period r) (periods ! i) \<and> cell_eq (col r) (label d))
            \<or> (i < length (data d) \<and> data d ! i = 0))"
    if "d \<in> set dss" for d
  proof -
    from that obtain v where
      d: "label d = v" "data d = map (\<lambda>period_val. count_cell df' col period_val v) periods"
      by (auto simp: dss_def)
    have "(\<exists>r\<in>set (rows df'). cell_eq (Period r) (periods ! i) \<and> cell_eq (col r) v)
          \<or> count_cell df' col (periods ! i) v = 0" for i
      by (auto simp: count_cell_def filter_empty_conv)
    then show ?thesis using d by (simp add: all_conj_distrib)
  qed
  have a: "aligned (Multi periods dss)"
    unfolding aligned_Multi using each by blast
  have z: "zero_filled df' col (Multi periods dss)"
    unfolding zero_filled_Multi using each by blast
  show ?thesis
    unfolding df'_def[symmetric] using r a z by simp
qed

lemma product_datasets_shape:
  assumes "d \<in> set (product_datasets df periods idx products)"
  shows "\<exists>product\<in>set products.
           label d = (if product = Str [] then Str ''Unknown'' else product)
           \<and> data d = map (\<lambda>period_val. count_cell df Product period_val product) periods"
  using assms
proof (induction products arbitrary: idx)
  case Nil
  then show ?case by simp
next
  case (Cons product rest)
  have "(label d = (if product = Str [] then Str ''Unknown'' else product)
          \<and> data d = map (\<lambda>period_val. count_cell df Product period_val product) periods)
        \<or> (\<exists>idx'. d \<in> set (product_datasets df periods idx' rest))"
    using Cons.prems
    by (cases "map_of product_colors (str product)") (auto simp: Let_def)
  then show ?case
  proof
    assume "label d = (if product = Str [] then Str ''Unknown'' else product)
          \<and> data d = map (\<lambda>period_val. count_cell df Product period_val product) periods"
    then show ?thesis by simp
  next
    assume "\<exists>idx'. d \<in> set (product_datasets df periods idx' rest)"
    then obtain idx' where "d \<in> set (product_datasets df periods idx' rest)" ..
    from Cons.IH[OF this] show ?thesis by auto
  qed
qed

lemma fill_product_neq [simp]: "fill_product c \<noteq> Str []" "fill_product c \<noteq> NaN"
  by (simp_all add: fill_product_def)

lemma product_ratio_shape:
  "\<exists>ch. get_product_ratio pd df period status = Inr ch \<and> aligned ch
        \<and> zero_filled
            (assign_period_ratio pd period
               (df_assign ''Product'' (\<lambda>r. r\<lparr>Product := fill_product (Product r)\<rparr>)
                  (status_filter status (dated df)))) Product ch
        \<and> (\<forall>d\<in>set (datasets ch). label d \<noteq> Str [] \<and> label d \<noteq> NaN)"
proof (cases "\<not> has_column df ''Launch Date'' \<or> \<not> has_column df ''Product'' \<or> df_empty df")
  case True
  then have "get_product_ratio pd df period status = Inr (Multi [] [])"
    by (auto simp: get_product_ratio_def)
  then show ?thesis by (simp add: aligned_Multi zero_filled_Multi)
next
  case False
  define df' where "df' = assign_period_ratio pd period
               (df_assign ''Product'' (\<lambda>r. r\<lparr>Product := fill_product (Product r)\<rparr>)
                  (status_filter status (dated df)))"
  define periods where
    "periods = sort_periods_chronologically pd (Some (unique (dropna (map Period (rows df')))))"
  define products where "products = unique (dropna (map Product (rows df')))"
  have r: "get_product_ratio pd df period status
             = Inr (Multi periods (product_datasets df' periods 0 products))"
    using False
    by (simp add: get_product_ratio_def Let_def df'_def dated_def periods_def products_def)
  have filled: "p \<noteq> Str [] \<and> p \<noteq> NaN" if "p \<in> set products" for p
    using that
    by (auto simp: products_def df'_def assign_period_ratio_eq assign_period_eq)
  have each: "length (data d) = length periods
      \<and> (\<forall>i<length periods.
            (\<exists>r\<in>set (rows df'). cell_eq (Period r) (periods ! i) \<and> cell_eq (Product r) (label d))
            \<or> (i < length (data d) \<and> data d ! i = 0))
      \<and> label d \<noteq> Str [] \<and> label d \<noteq> NaN"
    if "d \<in> set (product_datasets df' periods 0 products)" for d
  proof -
    from product_datasets_shape[OF that] obtain p where p: "p \<in> set products"
      and d: "label d = (if p = Str [] then Str ''Unknown'' else p)"
        "data d = map (\<lambda>period_val. count_cell df' Product period_val p) periods"
      by blast
    have l: "label d = p" using d(1) filled[OF p] by simp
    have "(\<exists>r\<in>set (rows df'). cell_eq (Period r) (periods ! i) \<and> cell_eq (Product r) p)
          \<or> count_cell df' Product (periods ! i) p = 0" for i
      by (auto simp: count_cell_def filter_empty_conv)
    then show ?thesis using d(2) l filled[OF p] by (simp add: all_conj_distrib)
  qed
  have a: "aligned (Multi periods (product_datasets df' periods 0 products))"
    unfolding aligned_Multi using each by blast
  have z: "zero_filled df' Product (Multi periods (product_datasets df' periods 0 products))"
    unfolding zero_filled_Multi using each by blast
  have l: "\<forall>d\<in>set (datasets (Multi periods (product_datasets df' periods 0 products))).
             label d \<noteq> Str [] \<and> label d \<noteq> NaN"
    using each by simp
  show ?thesis
    unfolding df'_def[symmetric] using r a z l by simp
qed




text \<open>
  C8. \<open>get_product_ratio\<close> recodes an empty or missing Product to \<open>Unknown\<close>: none of its
  datasets has an empty or missing label. \<open>get_win_rate_by_product\<close> does not recode: on the
  example table the creative with the empty Product is a dataset whose label is the empty
  string, where the ratio query shows it under \<open>Unknown\<close>.
\<close>

theorem win_rate_by_product_keeps_blank_product:
  "get_win_rate_by_product pandas_sample campaign_table ''month'' =
     Inr (Multi [Str ''2024-01'', Str ''2024-03'']
       [\<lparr>label = Str ''V34'', data = [0, 0], style = Line 2 False\<rparr>,
        \<lparr>label = Str [], data = [100, 0], style = Line 2 False\<rparr>])
   \<and> get_product_ratio pandas_sample campaign_table ''month'' None =
     Inr (Multi [Str ''2024-01'', Str ''2024-03'']
       [\<lparr>label = Str ''V34'', data = [0, 1], style = Bar ''#9966FF''\<rparr>,
        \<lparr>label = Str ''Unknown'', data = [1, 0], style = Bar ''#FF6384''\<rparr>])
   \<and> (\<exists>ch. get_product_ratio pd df period status = Inr ch
         \<and> list_all (\<lambda>d. label d \<noteq> Str [] \<and> label d \<noteq> NaN) (datasets ch))"
proof (intro conjI)
  show "get_win_rate_by_product pandas_sample campaign_table ''month'' =
     Inr (Multi [Str ''2024-01'', Str ''2024-03'']
       [\<lparr>label = Str ''V34'', data = [0, 0], style = Line 2 False\<rparr>,
        \<lparr>label = Str [], data = [100, 0], style = Line 2 False\<rparr>])"
    by code_simp
  show "get_product_ratio pandas_sample campaign_table ''month'' None =
     Inr (Multi [Str ''2024-01'', Str ''2024-03'']
       [\<lparr>label = Str ''V34'', data = [0, 1], style = Bar ''#9966FF''\<rparr>,
        \<lparr>label = Str ''Unknown'', data = [1, 0], style = Bar ''#FF6384''\<rparr>])"
    by code_simp
  show "\<exists>ch. get_product_ratio pd df period status = Inr ch
         \<and> list_all (\<lambda>d. label d \<noteq> Str [] \<and> label d \<noteq> NaN) (datasets ch)"
    using product_ratio_shape[of pd df period status] by (auto simp: list_all_iff)
qed

theorem win_rate_by_product_keeps_blank_product_witness:
  "(\<exists>ch. get_product_ratio pandas_sample campaign_table ''month'' None = Inr ch
         \<and> list_all (\<lambda>d. label d \<noteq> Str [] \<and> label d \<noteq> NaN) (datasets ch))
   \<and> (\<exists>ch. get_win_rate_by_product pandas_sample campaign_table ''month'' = Inr ch
         \<and> list_ex (\<lambda>d. label d = Str []) (datasets ch))"
proof -
  note t = win_rate_by_product_keeps_blank_product
             [of pandas_sample campaign_table "''month''" None]
  have a: "get_win_rate_by_product pandas_sample campaign_table ''month'' =
     Inr (Multi [Str ''2024-01'', Str ''2024-03'']
       [\<lparr>label = Str ''V34'', data = [0, 0], style = Line 2 False\<rparr>,
        \<lparr>label = Str [], data = [100, 0], style = Line 2 False\<rparr>])"
    using t by (elim conjE)
  have b: "\<exists>ch. get_product_ratio pandas_sample campaign_table ''month'' None = Inr ch
         \<and> list_all (\<lambda>d. label d \<noteq> Str [] \<and> label d \<noteq> NaN) (datasets ch)"
    using t by (elim conjE)
  have c: "\<exists>ch. get_win_rate_by_product pandas_sample campaign_table ''month'' = Inr ch
         \<and> list_ex (\<lambda>d. label d = Str []) (datasets ch)"
    unfolding a by simp
  show ?thesis using b c by (rule conjI)
qed

lemma rows_assign_period [simp]:
  "rows (assign_period pd period df)
     = map (\<lambda>r. r\<lparr>Period := spec_period_key pd df period r\<rparr>) (rows df)"
  by (simp add: assign_period_eq)

lemma has_column_assign_period [simp]:
  "has_column (assign_period pd period df) c \<longleftrightarrow> has_column df c \<or> c = ''Period''"
  by (simp add: assign_period_eq)

lemma rows_status_filter_Nil [simp]: "rows df = [] \<Longrightarrow> rows (status_filter status df) = []"
  by (simp add: status_filter_def)

lemma group_values_Nil [simp]: "rows df = [] \<Longrightarrow> group_values df col = []"
  by (simp add: group_values_def)

lemma no_dated_rows:
  "list_all (\<lambda>r. Launch_Date r = None) (rows df) \<Longrightarrow> rows (dated df) = []"
  by (simp add: dated_def list_all_iff filter_empty_conv)

lemma win_rate_by_period_undated:
  assumes "list_all (\<lambda>r. Launch_Date r = None) (rows df)"
  shows "get_win_rate_by_period pd df period = Inr (Single [] [])"
  using no_dated_rows[OF assms]
  by (simp add: get_win_rate_by_period_def Let_def dated_def)

lemma win_rate_by_dimension_undated:
  assumes "list_all (\<lambda>r. Launch_Date r = None) (rows df)"
  shows "win_rate_by_dimension pd name col df period = Inr (Multi [] [])"
  using no_dated_rows[OF assms]
  by (simp add: win_rate_by_dimension_def Let_def dated_def)

lemma ratio_by_dimension_undated:
  assumes "list_all (\<lambda>r. Launch_Date r = None) (rows df)"
  shows "ratio_by_dimension pd name col df period status = Inr (Multi [] [])"
  using no_dated_rows[OF assms]
  by (simp add: ratio_by_dimension_def Let_def dated_def assign_period_ratio_eq)

lemma product_ratio_undated:
  assumes "list_all (\<lambda>r. Launch_Date r = None) (rows df)"
  shows "get_product_ratio pd df period status = Inr (Multi [] [])"
  using no_dated_rows[OF assms]
  by (simp add: get_product_ratio_def Let_def dated_def assign_period_ratio_eq)

lemma avg_production_time_undated:
  assumes "list_all (\<lambda>r. Launch_Date r = None) (rows df)"
  shows "get_avg_production_time pd df strategist period = Inr (Single [] [])"
  using no_dated_rows[OF assms]
  by (simp add: get_avg_production_time_def Let_def dated_def df_empty_def)

lemma avg_editing_time_undated:
  assumes "list_all (\<lambda>r. Launch_Date r = None) (rows df)"
    and "\<not> truthy editor \<or> has_column df ''Editor/Designer''"
  shows "get_avg_editing_time pd df editor period = Inr (Single [] [])"
  using no_dated_rows[OF assms(1)] assms(2)
  by (auto simp: get_avg_editing_time_def Let_def dated_def editor_filter_def)

lemma creatives_volume_undated:
  assumes "list_all (\<lambda>r. Launch_Date r = None) (rows df)"
    and "\<not> truthy strategist \<or> has_column df ''Strategist''"
  shows "get_creatives_volume pd df period strategist status = Inr (Single [] [])"
  using no_dated_rows[OF assms(1)] assms(2)
  by (auto simp: get_creatives_volume_def Let_def dated_def strategist_filter_def)

lemma series_chart_returns: "\<exists>ch. series_chart pd result = Inr ch"
  using series_chart_total[of pd result] by blast

lemma strategist_filter_total:
  "\<not> truthy strategist \<or> has_column df ''Strategist''
     \<Longrightarrow> \<exists>df'. strategist_filter strategist df = Inr df'"
  by (auto simp: strategist_filter_def)

lemma editor_filter_total:
  "\<not> truthy editor \<or> has_column df ''Editor/Designer''
     \<Longrightarrow> \<exists>df'. editor_filter editor df = Inr df'"
  by (auto simp: editor_filter_def)

lemma win_rate_by_period_total:
  assumes "has_column df ''Status''"
  shows "\<exists>ch. get_win_rate_by_period pd df period = Inr ch"
proof (cases "\<not> has_column df ''Launch Date'' \<or> df_empty df")
  case True
  then show ?thesis by (auto simp: get_win_rate_by_period_def)
next
  case False
  define df' where "df' = assign_period pd period (df_filter (\<lambda>r. Launch_Date r \<noteq> None) df)"
  have "has_column (group df' k) ''Status''" for k
    using assms by (simp add: df'_def group_def)
  then have "\<exists>rates. traverse (\<lambda>period_val. calculate_win_rate (group df' period_val))
                        (groupby_keys df') = Inr rates"
    by (intro traverse_total) (use calculate_win_rate_total in blast)
  then obtain rates where r:
    "traverse (\<lambda>period_val. calculate_win_rate (group df' period_val)) (groupby_keys df')
       = Inr rates" ..
  obtain ch where "series_chart pd (zip (map Str (groupby_keys df')) rates) = Inr ch"
    using series_chart_returns by blast
  then show ?thesis
    using False r
    unfolding get_win_rate_by_period_def Let_def df'_def[symmetric] by simp
qed

lemma avg_production_time_total:
  assumes "\<not> truthy strategist \<or> has_column df ''Strategist''"
  shows "\<exists>ch. get_avg_production_time pd df strategist period = Inr ch"
proof -
  define d where "d = df_filter (\<lambda>r. 0 < the (Ad_time_to_ready_days r))
     (df_filter (\<lambda>r. Ad_time_to_ready_days r \<noteq> None) (df_filter (\<lambda>r. Launch_Date r \<noteq> None) df))"
  have "\<not> truthy strategist \<or> has_column d ''Strategist''"
    using assms by (simp add: d_def)
  then obtain d' where d': "strategist_filter strategist d = Inr d'"
    using strategist_filter_total by blast
  obtain ch where "series_chart pd (map (\<lambda>(k, vs). (k, mean_round2 pd (map the vs)))
       (group_values (assign_period pd period d') Ad_time_to_ready_days)) = Inr ch"
    using series_chart_returns by blast
  then show ?thesis
    using d' unfolding get_avg_production_time_def Let_def d_def[symmetric] by simp
qed

lemma avg_editing_time_total:
  assumes "\<not> truthy editor \<or> has_column df ''Editor/Designer''"
  shows "\<exists>ch. get_avg_editing_time pd df editor period = Inr ch"
proof -
  define d where "d = df_assign ''Editing Duration (hours)''
                      (\<lambda>r. r\<lparr>Editing_Duration_hours :=
                                 map_option (\<lambda>m. fl (m / 60)) (Editing_Duration_minutes r)\<rparr>)
     (df_filter (\<lambda>r. Editing_Duration_minutes r \<noteq> None) (df_filter (\<lambda>r. Launch_Date r \<noteq> None) df))"
  have "\<not> truthy editor \<or> has_column d ''Editor/Designer''"
    using assms by (auto simp: d_def)
  then obtain d' where d': "editor_filter editor d = Inr d'"
    using editor_filter_total by blast
  obtain ch where "series_chart pd (map (\<lambda>(k, vs). (k, mean_round2 pd (map the vs)))
       (group_values (assign_period pd period d') Editing_Duration_hours)) = Inr ch"
    using series_chart_returns by blast
  then show ?thesis
    using d' unfolding get_avg_editing_time_def Let_def d_def[symmetric] by simp
qed

lemma creatives_volume_total:
  assumes "\<not> truthy strategist \<or> has_column df ''Strategist''"
  shows "\<exists>ch. get_creatives_volume pd df period strategist status = Inr ch"
proof -
  define d where "d = status_filter status (df_filter (\<lambda>r. Launch_Date r \<noteq> None) df)"
  have "\<not> truthy strategist \<or> has_column d ''Strategist''"
    using assms by (simp add: d_def)
  then obtain d' where d': "strategist_filter strategist d = Inr d'"
    using strategist_filter_total by blast
  obtain ch where "series_chart pd (map (\<lambda>(k, vs). (k, length vs))
       (group_values (assign_period pd period d') (\<lambda>r. ()))) = Inr ch"
    using series_chart_returns by blast
  then show ?thesis
    using d' unfolding get_creatives_volume_def Let_def d_def[symmetric] by simp
qed

lemma spec_period_key_df_filter [simp]:
  "spec_period_key pd (df_filter keep df) = spec_period_key pd df"
  by (simp add: spec_period_key_def fun_eq_iff)

lemma traverse_Inl_source:
  "traverse f xs = Inl e \<Longrightarrow> \<exists>x\<in>set xs. f x = Inl e"
  by (induction xs arbitrary: e) (auto split: sum.splits)

lemma traverse_Inl_const:
  assumes "\<forall>x\<in>set xs. \<forall>e. f x = Inl e \<longrightarrow> e = e0"
    and "\<exists>x\<in>set xs. \<exists>e. f x = Inl e"
  shows "traverse f xs = Inl e0"
  using assms
proof (induction xs)
  case Nil
  then show ?case by simp
next
  case (Cons x xs)
  show ?case
  proof (cases "f x")
    case (Inl e)
    then have "e = e0" using Cons.prems(1) by simp
    with Inl show ?thesis by simp
  next
    case (Inr y)
    then have "\<exists>x\<in>set xs. \<exists>e. f x = Inl e" using Cons.prems(2) by auto
    then have "traverse f xs = Inl e0" using Cons.IH Cons.prems(1) by simp
    with Inr show ?thesis by simp
  qed
qed

lemma calculate_win_rate_without_status:
  assumes "has_column df ''Launch Date''" "\<not> has_column df ''Status''"
  shows "rows df \<noteq> [] \<Longrightarrow> calculate_win_rate df = Inl (KeyError ''Status'')"
    and "calculate_win_rate df = Inl e \<Longrightarrow> e = KeyError ''Status''"
    and "rows df = [] \<Longrightarrow> calculate_win_rate df = Inr 0"
  using assms df_empty_iff[OF assms(1)]
  by (auto simp: calculate_win_rate_def split: if_splits)

lemma win_rate_by_period_raises:
  assumes "has_column df ''Launch Date''" "\<not> has_column df ''Status''"
    and "\<exists>r\<in>set (rows df). Launch_Date r \<noteq> None \<and> spec_period_key pd df period r \<noteq> NaN"
  shows "get_win_rate_by_period pd df period = Inl (KeyError ''Status'')"
proof -
  define df' where "df' = assign_period pd period (df_filter (\<lambda>r. Launch_Date r \<noteq> None) df)"
  from assms(3) obtain r where
    r: "r \<in> set (rows df)" "Launch_Date r \<noteq> None" "spec_period_key pd df period r \<noteq> NaN"
    by blast
  then obtain s where s: "spec_period_key pd df period r = Str s"
    by (cases "spec_period_key pd df period r") auto
  have "r\<lparr>Period := spec_period_key pd df period r\<rparr> \<in> set (rows df')"
    using r(1,2) by (simp add: df'_def image_iff) blast
  then have "\<exists>r'\<in>set (rows df'). Period r' = Str s"
    using s by (intro bexI[of _ "r\<lparr>Period := spec_period_key pd df period r\<rparr>"]) simp_all
  then have ne: "groupby_keys df' \<noteq> []"
    using set_groupby_keys[of df'] by auto
  have cols: "has_column (group df' k) ''Launch Date''" "\<not> has_column (group df' k) ''Status''"
    for k
    using assms(1,2) by (simp_all add: group_def df'_def)
  have each: "calculate_win_rate (group df' k) = Inl (KeyError ''Status'')"
    if "k \<in> set (groupby_keys df')" for k
  proof -
    from that have "rows (group df' k) \<noteq> []"
      by (auto simp: set_groupby_keys group_def filter_empty_conv)
    then show ?thesis by (rule calculate_win_rate_without_status(1)[OF cols])
  qed
  have t: "traverse (\<lambda>period_val. calculate_win_rate (group df' period_val)) (groupby_keys df')
      = Inl (KeyError ''Status'')"
    using ne each by (cases "groupby_keys df'") auto
  have "\<not> df_empty df"
    using assms(1) r(1) by (auto simp: df_empty_iff)
  then show ?thesis
    using assms(1) t unfolding get_win_rate_by_period_def Let_def df'_def[symmetric] by simp
qed

lemma win_rate_by_dimension_raises:
  assumes "has_column df ''Launch Date''" "has_column df name" "\<not> has_column df ''Status''"
    and "\<exists>r\<in>set (rows (assign_period pd period (dated df))). Period r \<noteq> NaN \<and> col r \<noteq> NaN"
  shows "win_rate_by_dimension pd name col df period = Inl (KeyError ''Status'')"
proof -
  define df' where "df' = assign_period pd period (df_filter (\<lambda>r. Launch_Date r \<noteq> None) df)"
  define periods where
    "periods = sort_periods_chronologically pd (Some (unique (map Period (rows df'))))"
  define sub where
    "sub = (\<lambda>v period_val. df_filter (\<lambda>r. cell_eq (Period r) period_val \<and> cell_eq (col r) v) df')"
  define one where "one = (\<lambda>v.
     case traverse (\<lambda>period_val. calculate_win_rate (sub v period_val)) periods of
       Inl e \<Rightarrow> Inl e
     | Inr ds \<Rightarrow> Inr \<lparr>label = v, data = ds, style = Line 2 False\<rparr>)"
  from assms(4) obtain r where r: "r \<in> set (rows df')" "Period r \<noteq> NaN" "col r \<noteq> NaN"
    unfolding df'_def dated_def by blast
  have cols: "has_column (sub v p) ''Launch Date''" "\<not> has_column (sub v p) ''Status''" for v p
    using assms(1,3) by (simp_all add: sub_def df'_def)
  have inner_err: "e = KeyError ''Status''"
    if "traverse (\<lambda>period_val. calculate_win_rate (sub v period_val)) periods = Inl e" for v e
    using traverse_Inl_source[OF that] calculate_win_rate_without_status(2)[OF cols] by blast
  have one_err: "e = KeyError ''Status''" if "one v = Inl e" for v e
    using that inner_err[of v e] by (auto simp: one_def split: sum.splits)
  have "r \<in> set (rows (sub (col r) (Period r)))"
    using r by (simp add: sub_def cell_eq_def)
  then have "rows (sub (col r) (Period r)) \<noteq> []" by auto
  then have "calculate_win_rate (sub (col r) (Period r)) = Inl (KeyError ''Status'')"
    by (rule calculate_win_rate_without_status(1)[OF cols])
  moreover have "Period r \<in> set periods"
    using r(1) by (simp add: periods_def)
  ultimately have "traverse (\<lambda>period_val. calculate_win_rate (sub (col r) period_val)) periods
      = Inl (KeyError ''Status'')"
    using calculate_win_rate_without_status(2)[OF cols]
    by (intro traverse_Inl_const) blast+
  then have "one (col r) = Inl (KeyError ''Status'')"
    by (simp add: one_def)
  moreover have "col r \<in> set (unique (dropna (map col (rows df'))))"
    using r(1,3) by simp
  ultimately have t: "traverse one (unique (dropna (map col (rows df')))) = Inl (KeyError ''Status'')"
    using one_err by (intro traverse_Inl_const) blast+
  have "rows df \<noteq> []"
    using r(1) by (auto simp: df'_def)
  then have "\<not> df_empty df"
    using assms(1) by (simp add: df_empty_iff)
  then show ?thesis
    using assms(1,2) t[unfolded one_def sub_def]
    unfolding win_rate_by_dimension_def Let_def df'_def[symmetric] periods_def[symmetric]
    by simp
qed

lemma creatives_volume_raises:
  assumes "has_column df ''Launch Date''" "\<not> df_empty df" "truthy strategist"
    and "\<not> has_column df ''Strategist''"
  shows "get_creatives_volume pd df period strategist status = Inl (KeyError ''Strategist'')"
  using assms by (simp add: get_creatives_volume_def Let_def strategist_filter_def)

lemma avg_editing_time_raises:
  assumes "has_column df ''Editing Duration (minutes)''" "has_column df ''Launch Date''"
    and "truthy editor" "\<not> has_column df ''Editor/Designer''"
  shows "get_avg_editing_time pd df editor period = Inl (KeyError ''Editor/Designer'')"
  using assms by (simp add: get_avg_editing_time_def Let_def editor_filter_def)

lemma avg_production_time_raises:
  assumes "has_column df ''Ad time to ready (days)''" "has_column df ''Launch Date''"
    and "truthy strategist" "\<not> has_column df ''Strategist''"
    and "\<exists>r\<in>set (rows df). Launch_Date r \<noteq> None \<and> Ad_time_to_ready_days r \<noteq> None
            \<and> 0 < the (Ad_time_to_ready_days r)"
  shows "get_avg_production_time pd df strategist period = Inl (KeyError ''Strategist'')"
proof -
  define d where "d = df_filter (\<lambda>r. 0 < the (Ad_time_to_ready_days r))
     (df_filter (\<lambda>r. Ad_time_to_ready_days r \<noteq> None) (df_filter (\<lambda>r. Launch_Date r \<noteq> None) df))"
  from assms(5) have "rows d \<noteq> []"
    by (auto simp: d_def filter_empty_conv)
  moreover have "has_column d ''Launch Date''" using assms(2) by (simp add: d_def)
  ultimately have "\<not> df_empty d" by (simp add: df_empty_iff)
  moreover have "strategist_filter strategist d = Inl (KeyError ''Strategist'')"
    using assms(3,4) by (simp add: strategist_filter_def d_def)
  ultimately show ?thesis
    using assms(1,2) unfolding get_avg_production_time_def Let_def d_def[symmetric] by simp
qed

lemma dated_row_with_key:
  assumes "A \<and> B \<and> C
     \<and> (\<exists>r\<in>set (rows df). Launch_Date r \<noteq> None \<and> spec_period_key pd df period r \<noteq> NaN
            \<and> col r \<noteq> NaN)"
    and "\<And>r c. col (r\<lparr>Period := c\<rparr>) = col r"
  shows "\<exists>r\<in>set (rows (assign_period pd period (dated df))). Period r \<noteq> NaN \<and> col r \<noteq> NaN"
proof -
  from assms(1) obtain r where
    r: "r \<in> set (rows df)" "Launch_Date r \<noteq> None" "spec_period_key pd df period r \<noteq> NaN"
       "col r \<noteq> NaN"
    by blast
  have "r\<lparr>Period := spec_period_key pd df period r\<rparr> \<in> set (rows (assign_period pd period (dated df)))"
    using r(1,2) by (simp add: dated_def image_iff) blast
  moreover have "Period (r\<lparr>Period := spec_period_key pd df period r\<rparr>) \<noteq> NaN
      \<and> col (r\<lparr>Period := spec_period_key pd df period r\<rparr>) \<noteq> NaN"
    using r(3,4) assms(2) by simp
  ultimately show ?thesis by blast
qed


text \<open>
  C5. Every entry point checks the Launch Date column, a sliced or ratio query its
  dimension column, a mean its metric column: when one of them is missing, or when no row
  has a Launch Date, the entry point returns its empty structure, and on a table that has
  the Status column and the column of the filter it is given every entry point returns a
  chart. The claim fails on the columns that are read without a check. Without a Status
  column the four win-rate queries raise \<open>KeyError\<close> as soon as a group has a row.
  Without a Strategist column the volume and the mean production time raise it when they
  are asked for one strategist, and so does the mean editing time without an
  Editor/Designer column when it is asked for one editor; the volume and the mean editing
  time do so even when no row has a Launch Date.
\<close>

theorem unchecked_columns_raise:
  "(\<not> has_column df ''Launch Date'' \<longrightarrow>
         get_win_rate_by_period pd df period = Inr (Single [] [])
         \<and> get_win_rate_by_strategist pd df period = Inr (Multi [] [])
         \<and> get_win_rate_by_product pd df period = Inr (Multi [] [])
         \<and> get_win_rate_by_ad_type pd df period = Inr (Multi [] [])
         \<and> get_ad_type_ratio pd df period status = Inr (Multi [] [])
         \<and> get_product_ratio pd df period status = Inr (Multi [] [])
         \<and> get_format_ratio pd df period status = Inr (Multi [] [])
         \<and> get_avg_production_time pd df strategist period = Inr (Single [] [])
         \<and> get_avg_editing_time pd df editor period = Inr (Single [] [])
         \<and> get_creatives_volume pd df period strategist status = Inr (Single [] []))
   \<and> (\<not> has_column df ''Strategist'' \<longrightarrow>
         get_win_rate_by_strategist pd df period = Inr (Multi [] []))
   \<and> (\<not> has_column df ''Product'' \<longrightarrow>
         get_win_rate_by_product pd df period = Inr (Multi [] [])
         \<and> get_product_ratio pd df period status = Inr (Multi [] []))
   \<and> (\<not> has_column df ''Type'' \<longrightarrow>
         get_win_rate_by_ad_type pd df period = Inr (Multi [] [])
         \<and> get_ad_type_ratio pd df period status = Inr (Multi [] []))
   \<and> (\<not> has_column df ''Format'' \<longrightarrow>
         get_format_ratio pd df period status = Inr (Multi [] []))
   \<and> (\<not> has_column df ''Ad time to ready (days)'' \<longrightarrow>
         get_avg_production_time pd df strategist period = Inr (Single [] []))
   \<and> (\<not> has_column df ''Editing Duration (minutes)'' \<longrightarrow>
         get_avg_editing_time pd df editor period = Inr (Single [] []))
   \<and> (list_all (\<lambda>r. Launch_Date r = None) (rows df) \<longrightarrow>
         get_win_rate_by_period pd df period = Inr (Single [] [])
         \<and> get_win_rate_by_strategist pd df period = Inr (Multi [] [])
         \<and> get_win_rate_by_product pd df period = Inr (Multi [] [])
         \<and> get_win_rate_by_ad_type pd df period = Inr (Multi [] [])
         \<and> get_ad_type_ratio pd df period status = Inr (Multi [] [])
         \<and> get_product_ratio pd df period status = Inr (Multi [] [])
         \<and> get_format_ratio pd df period status = Inr (Multi [] [])
         \<and> get_avg_production_time pd df strategist period = Inr (Single [] [])
         \<and> (\<not> truthy editor \<or> has_column df ''Editor/Designer'' \<longrightarrow>
               get_avg_editing_time pd df editor period = Inr (Single [] []))
         \<and> (\<not> truthy strategist \<or> has_column df ''Strategist'' \<longrightarrow>
               get_creatives_volume pd df period strategist status = Inr (Single [] [])))
   \<and> (has_column df ''Status'' \<longrightarrow>
         (\<exists>ch. get_win_rate_by_period pd df period = Inr ch)
         \<and> (\<exists>ch. get_win_rate_by_strategist pd df period = Inr ch)
         \<and> (\<exists>ch. get_win_rate_by_product pd df period = Inr ch)
         \<and> (\<exists>ch. get_win_rate_by_ad_type pd df period = Inr ch))
   \<and> (\<exists>ch. get_ad_type_ratio pd df period status = Inr ch)
   \<and> (\<exists>ch. get_product_ratio pd df period status = Inr ch)
   \<and> (\<exists>ch. get_format_ratio pd df period status = Inr ch)
   \<and> (\<not> truthy strategist \<or> has_column df ''Strategist'' \<longrightarrow>
         (\<exists>ch. get_avg_production_time pd df strategist period = Inr ch)
         \<and> (\<exists>ch. get_creatives_volume pd df period strategist status = Inr ch))
   \<and> (\<not> truthy editor \<or> has_column df ''Editor/Designer'' \<longrightarrow>
         (\<exists>ch. get_avg_editing_time pd df editor period = Inr ch))
   \<and> (has_column df ''Launch Date'' \<and> \<not> has_column df ''Status''
        \<and> (\<exists>r\<in>set (rows df). Launch_Date r \<noteq> None \<and> spec_period_key pd df period r \<noteq> NaN)
      \<longrightarrow> get_win_rate_by_period pd df period = Inl (KeyError ''Status''))
   \<and> (has_column df ''Launch Date'' \<and> has_column df ''Strategist'' \<and> \<not> has_column df ''Status''
        \<and> (\<exists>r\<in>set (rows df). Launch_Date r \<noteq> None \<and> spec_period_key pd df period r \<noteq> NaN
               \<and> Strategist r \<noteq> NaN)
      \<longrightarrow> get_win_rate_by_strategist pd df period = Inl (KeyError ''Status''))
   \<and> (has_column df ''Launch Date'' \<and> has_column df ''Product'' \<and> \<not> has_column df ''Status''
        \<and> (\<exists>r\<in>set (rows df). Launch_Date r \<noteq> None \<and> spec_period_key pd df period r \<noteq> NaN
               \<and> Product r \<noteq> NaN)
      \<longrightarrow> get_win_rate_by_product pd df period = Inl (KeyError ''Status''))
   \<and> (has_column df ''Launch Date'' \<and> has_column df ''Type'' \<and> \<not> has_column df ''Status''
        \<and> (\<exists>r\<in>set (rows df). Launch_Date r \<noteq> None \<and> spec_period_key pd df period r \<noteq> NaN
               \<and> Type r \<noteq> NaN)
      \<longrightarrow> get_win_rate_by_ad_type pd df period = Inl (KeyError ''Status''))
   \<and> (has_column df ''Launch Date'' \<and> \<not> df_empty df \<and> truthy strategist
        \<and> \<not> has_column df ''Strategist''
      \<longrightarrow> get_creatives_volume pd df period strategist status = Inl (KeyError ''Strategist''))
   \<and> (has_column df ''Ad time to ready (days)'' \<and> has_column df ''Launch Date''
        \<and> truthy strategist \<and> \<not> has_column df ''Strategist''
        \<and> (\<exists>r\<in>set (rows df). Launch_Date r \<noteq> None \<and> Ad_time_to_ready_days r \<noteq> None
               \<and> 0 < the (Ad_time_to_ready_days r))
      \<longrightarrow> get_avg_production_time pd df strategist period = Inl (KeyError ''Strategist''))
   \<and> (has_column df ''Editing Duration (minutes)'' \<and> has_column df ''Launch Date''
        \<and> truthy editor \<and> \<not> has_column df ''Editor/Designer''
      \<longrightarrow> get_avg_editing_time pd df editor period = Inl (KeyError ''Editor/Designer''))"
proof (intro conjI impI)
    assume "\<not> has_column df ''Launch Date''"
  then show "get_win_rate_by_period pd df period = Inr (Single [] [])"
    "get_win_rate_by_strategist pd df period = Inr (Multi [] [])"
    "get_win_rate_by_product pd df period = Inr (Multi [] [])"
    "get_win_rate_by_ad_type pd df period = Inr (Multi [] [])"
    "get_ad_type_ratio pd df period status = Inr (Multi [] [])"
    "get_product_ratio pd df period status = Inr (Multi [] [])"
    "get_format_ratio pd df period status = Inr (Multi [] [])"
    "get_avg_production_time pd df strategist period = Inr (Single [] [])"
    "get_avg_editing_time pd df editor period = Inr (Single [] [])"
    "get_creatives_volume pd df period strategist status = Inr (Single [] [])"
    by (simp_all add: get_win_rate_by_period_def get_win_rate_by_strategist_def
        get_win_rate_by_product_def get_win_rate_by_ad_type_def win_rate_by_dimension_def
        get_ad_type_ratio_def get_format_ratio_def ratio_by_dimension_def get_product_ratio_def
        get_avg_production_time_def get_avg_editing_time_def get_creatives_volume_def)
next
  assume "\<not> has_column df ''Strategist''"
  then show "get_win_rate_by_strategist pd df period = Inr (Multi [] [])"
    by (simp add: get_win_rate_by_strategist_def win_rate_by_dimension_def)
next
  assume "\<not> has_column df ''Product''"
  then show "get_win_rate_by_product pd df period = Inr (Multi [] [])"
    "get_product_ratio pd df period status = Inr (Multi [] [])"
    by (simp_all add: get_win_rate_by_product_def win_rate_by_dimension_def get_product_ratio_def)
next
  assume "\<not> has_column df ''Type''"
  then show "get_win_rate_by_ad_type pd df period = Inr (Multi [] [])"
    "get_ad_type_ratio pd df period status = Inr (Multi [] [])"
    by (simp_all add: get_win_rate_by_ad_type_def win_rate_by_dimension_def get_ad_type_ratio_def
        ratio_by_dimension_def)
next
  assume "\<not> has_column df ''Format''"
  then show "get_format_ratio pd df period status = Inr (Multi [] [])"
    by (simp add: get_format_ratio_def ratio_by_dimension_def)
next
  assume "\<not> has_column df ''Ad time to ready (days)''"
  then show "get_avg_production_time pd df strategist period = Inr (Single [] [])"
    by (simp add: get_avg_production_time_def)
next
  assume "\<not> has_column df ''Editing Duration (minutes)''"
  then show "get_avg_editing_time pd df editor period = Inr (Single [] [])"
    by (simp add: get_avg_editing_time_def)
next
  assume u: "list_all (\<lambda>r. Launch_Date r = None) (rows df)"
  show "get_win_rate_by_period pd df period = Inr (Single [] [])"
    by (rule win_rate_by_period_undated[OF u])
  show "get_win_rate_by_strategist pd df period = Inr (Multi [] [])"
    unfolding get_win_rate_by_strategist_def by (rule win_rate_by_dimension_undated[OF u])
  show "get_win_rate_by_product pd df period = Inr (Multi [] [])"
    unfolding get_win_rate_by_product_def by (rule win_rate_by_dimension_undated[OF u])
  show "get_win_rate_by_ad_type pd df period = Inr (Multi [] [])"
    unfolding get_win_rate_by_ad_type_def by (rule win_rate_by_dimension_undated[OF u])
  show "get_ad_type_ratio pd df period status = Inr (Multi [] [])"
    unfolding get_ad_type_ratio_def by (rule ratio_by_dimension_undated[OF u])
  show "get_format_ratio pd df period status = Inr (Multi [] [])"
    unfolding get_format_ratio_def by (rule ratio_by_dimension_undated[OF u])
  show "get_product_ratio pd df period status = Inr (Multi [] [])"
    by (rule product_ratio_undated[OF u])
  show "get_avg_production_time pd df strategist period = Inr (Single [] [])"
    by (rule avg_production_time_undated[OF u])
  show "get_avg_editing_time pd df editor period = Inr (Single [] [])"
    if "\<not> truthy editor \<or> has_column df ''Editor/Designer''"
    by (rule avg_editing_time_undated[OF u that])
  show "get_creatives_volume pd df period strategist status = Inr (Single [] [])"
    if "\<not> truthy strategist \<or> has_column df ''Strategist''"
    by (rule creatives_volume_undated[OF u that])
next
  assume s: "has_column df ''Status''"
  show "\<exists>ch. get_win_rate_by_period pd df period = Inr ch"
    by (rule win_rate_by_period_total[OF s])
  show "\<exists>ch. get_win_rate_by_strategist pd df period = Inr ch"
    unfolding get_win_rate_by_strategist_def by (rule win_rate_by_dimension_total[OF s])
  show "\<exists>ch. get_win_rate_by_product pd df period = Inr ch"
    unfolding get_win_rate_by_product_def by (rule win_rate_by_dimension_total[OF s])
  show "\<exists>ch. get_win_rate_by_ad_type pd df period = Inr ch"
    unfolding get_win_rate_by_ad_type_def by (rule win_rate_by_dimension_total[OF s])
next
  show "\<exists>ch. get_ad_type_ratio pd df period status = Inr ch"
    unfolding get_ad_type_ratio_def using ratio_by_dimension_shape[of pd "''Type''" Type df period status]
    by blast
  show "\<exists>ch. get_format_ratio pd df period status = Inr ch"
    unfolding get_format_ratio_def
    using ratio_by_dimension_shape[of pd "''Format''" Format df period status]
    by blast
  show "\<exists>ch. get_product_ratio pd df period status = Inr ch"
    using product_ratio_shape[of pd df period status] by blast
next
  assume s: "\<not> truthy strategist \<or> has_column df ''Strategist''"
  show "\<exists>ch. get_avg_production_time pd df strategist period = Inr ch"
    by (rule avg_production_time_total[OF s])
  show "\<exists>ch. get_creatives_volume pd df period strategist status = Inr ch"
    by (rule creatives_volume_total[OF s])
next
  assume e: "\<not> truthy editor \<or> has_column df ''Editor/Designer''"
  show "\<exists>ch. get_avg_editing_time pd df editor period = Inr ch"
    by (rule avg_editing_time_total[OF e])
next
  assume a: "has_column df ''Launch Date'' \<and> \<not> has_column df ''Status''
        \<and> (\<exists>r\<in>set (rows df). Launch_Date r \<noteq> None \<and> spec_period_key pd df period r \<noteq> NaN)"
  then show "get_win_rate_by_period pd df period = Inl (KeyError ''Status'')"
    by (intro win_rate_by_period_raises) simp_all
next
  assume a: "has_column df ''Launch Date'' \<and> has_column df ''Strategist'' \<and> \<not> has_column df ''Status''
        \<and> (\<exists>r\<in>set (rows df). Launch_Date r \<noteq> None \<and> spec_period_key pd df period r \<noteq> NaN
               \<and> Strategist r \<noteq> NaN)"
  then have "\<exists>r\<in>set (rows (assign_period pd period (dated df))).
               Period r \<noteq> NaN \<and> Strategist r \<noteq> NaN"
    by (rule dated_row_with_key) simp
  with a show "get_win_rate_by_strategist pd df period = Inl (KeyError ''Status'')"
    unfolding get_win_rate_by_strategist_def by (intro win_rate_by_dimension_raises) simp_all
next
  assume a: "has_column df ''Launch Date'' \<and> has_column df ''Product'' \<and> \<not> has_column df ''Status''
        \<and> (\<exists>r\<in>set (rows df). Launch_Date r \<noteq> None \<and> spec_period_key pd df period r \<noteq> NaN
               \<and> Product r \<noteq> NaN)"
  then have "\<exists>r\<in>set (rows (assign_period pd period (dated df))).
               Period r \<noteq> NaN \<and> Product r \<noteq> NaN"
    by (rule dated_row_with_key) simp
  with a show "get_win_rate_by_product pd df period = Inl (KeyError ''Status'')"
    unfolding get_win_rate_by_product_def by (intro win_rate_by_dimension_raises) simp_all
next
  assume a: "has_column df ''Launch Date'' \<and> has_column df ''Type'' \<and> \<not> has_column df ''Status''
        \<and> (\<exists>r\<in>set (rows df). Launch_Date r \<noteq> None \<and> spec_period_key pd df period r \<noteq> NaN
               \<and> Type r \<noteq> NaN)"
  then have "\<exists>r\<in>set (rows (assign_period pd period (dated df))).
               Period r \<noteq> NaN \<and> Type r \<noteq> NaN"
    by (rule dated_row_with_key) simp
  with a show "get_win_rate_by_ad_type pd df period = Inl (KeyError ''Status'')"
    unfolding get_win_rate_by_ad_type_def by (intro win_rate_by_dimension_raises) simp_all
next
  assume "has_column df ''Launch Date'' \<and> \<not> df_empty df \<and> truthy strategist
        \<and> \<not> has_column df ''Strategist''"
  then show "get_creatives_volume pd df period strategist status = Inl (KeyError ''Strategist'')"
    by (intro creatives_volume_raises) simp_all
next
  assume "has_column df ''Ad time to ready (days)'' \<and> has_column df ''Launch Date''
        \<and> truthy strategist \<and> \<not> has_column df ''Strategist''
        \<and> (\<exists>r\<in>set (rows df). Launch_Date r \<noteq> None \<and> Ad_time_to_ready_days r \<noteq> None
               \<and> 0 < the (Ad_time_to_ready_days r))"
  then show "get_avg_production_time pd df strategist period = Inl (KeyError ''Strategist'')"
    by (intro avg_production_time_raises) simp_all
next
  assume "has_column df ''Editing Duration (minutes)'' \<and> has_column df ''Launch Date''
        \<and> truthy editor \<and> \<not> has_column df ''Editor/Designer''"
  then show "get_avg_editing_time pd df editor period = Inl (KeyError ''Editor/Designer'')"
    by (intro avg_editing_time_raises) simp_all
qed

theorem unchecked_columns_raise_witness:
  "has_column campaign_without_status ''Launch Date''
   \<and> \<not> has_column campaign_without_status ''Status''
   \<and> (\<exists>r\<in>set (rows campaign_without_status). Launch_Date r \<noteq> None
         \<and> spec_period_key pandas_sample campaign_without_status ''month'' r \<noteq> NaN)
   \<and> get_win_rate_by_period pandas_sample campaign_without_status ''month''
       = Inl (KeyError ''Status'')
   \<and> list_all (\<lambda>r. Launch_Date r = None) (rows undated_table)
   \<and> \<not> df_empty undated_table
   \<and> \<not> has_column undated_table ''Strategist''
   \<and> get_win_rate_by_period pandas_sample undated_table ''month'' = Inr (Single [] [])
   \<and> get_creatives_volume pandas_sample undated_table ''month'' None None = Inr (Single [] [])
   \<and> get_creatives_volume pandas_sample undated_table ''month'' (Some ''Ann'') None
       = Inl (KeyError ''Strategist'')"
proof -
  have c1: "has_column campaign_without_status ''Launch Date''"
    and c2: "\<not> has_column campaign_without_status ''Status''"
    by (simp_all add: has_column_def campaign_without_status_def notion_columns_def)
  have c3: "\<exists>r\<in>set (rows campaign_without_status). Launch_Date r \<noteq> None
         \<and> spec_period_key pandas_sample campaign_without_status ''month'' r \<noteq> NaN"
    by (simp add: campaign_without_status_def campaign_table_def blank_def spec_period_key_def
        has_column_def notion_columns_def)
  have u1: "list_all (\<lambda>r. Launch_Date r = None) (rows undated_table)"
    by (simp add: undated_table_def blank_def)
  have u2: "has_column undated_table ''Launch Date''"
    and u3: "\<not> has_column undated_table ''Strategist''"
    and u4: "\<not> df_empty undated_table"
    by (simp_all add: has_column_def df_empty_def undated_table_def notion_columns_def)
  have n: "\<not> truthy None" and s: "truthy (Some ''Ann'')"
    by (simp_all add: truthy_def)
  note a = unchecked_columns_raise
      [where df = campaign_without_status and pd = pandas_sample and period = "''month''"
         and status = None and strategist = None and editor = None]
  note b = unchecked_columns_raise
      [where df = undated_table and pd = pandas_sample and period = "''month''"
         and status = None and strategist = None and editor = None]
  note c = unchecked_columns_raise
      [where df = undated_table and pd = pandas_sample and period = "''month''"
         and status = None and strategist = "Some ''Ann''" and editor = None]
  from a have "has_column campaign_without_status ''Launch Date''
        \<and> \<not> has_column campaign_without_status ''Status''
        \<and> (\<exists>r\<in>set (rows campaign_without_status). Launch_Date r \<noteq> None
              \<and> spec_period_key pandas_sample campaign_without_status ''month'' r \<noteq> NaN)
      \<longrightarrow> get_win_rate_by_period pandas_sample campaign_without_status ''month''
            = Inl (KeyError ''Status'')"
    by (elim conjE)
  then have r1: "get_win_rate_by_period pandas_sample campaign_without_status ''month''
       = Inl (KeyError ''Status'')"
    using c1 c2 c3 by blast
  from b have "list_all (\<lambda>r. Launch_Date r = None) (rows undated_table) \<longrightarrow>
         get_win_rate_by_period pandas_sample undated_table ''month'' = Inr (Single [] [])
         \<and> get_win_rate_by_strategist pandas_sample undated_table ''month'' = Inr (Multi [] [])
         \<and> get_win_rate_by_product pandas_sample undated_table ''month'' = Inr (Multi [] [])
         \<and> get_win_rate_by_ad_type pandas_sample undated_table ''month'' = Inr (Multi [] [])
         \<and> get_ad_type_ratio pandas_sample undated_table ''month'' None = Inr (Multi [] [])
         \<and> get_product_ratio pandas_sample undated_table ''month'' None = Inr (Multi [] [])
         \<and> get_format_ratio pandas_sample undated_table ''month'' None = Inr (Multi [] [])
         \<and> get_avg_production_time pandas_sample undated_table None ''month'' = Inr (Single [] [])
         \<and> (\<not> truthy None \<or> has_column undated_table ''Editor/Designer'' \<longrightarrow>
               get_avg_editing_time pandas_sample undated_table None ''month'' = Inr (Single [] []))
         \<and> (\<not> truthy None \<or> has_column undated_table ''Strategist'' \<longrightarrow>
               get_creatives_volume pandas_sample undated_table ''month'' None None
                 = Inr (Single [] []))"
    by (elim conjE)
  then have r2: "get_win_rate_by_period pandas_sample undated_table ''month'' = Inr (Single [] [])"
    and r3: "get_creatives_volume pandas_sample undated_table ''month'' None None
               = Inr (Single [] [])"
    using u1 n by blast+
  from c have "has_column undated_table ''Launch Date'' \<and> \<not> df_empty undated_table
        \<and> truthy (Some ''Ann'') \<and> \<not> has_column undated_table ''Strategist''
      \<longrightarrow> get_creatives_volume pandas_sample undated_table ''month'' (Some ''Ann'') None
            = Inl (KeyError ''Strategist'')"
    by (elim conjE)
  then have r4: "get_creatives_volume pandas_sample undated_table ''month'' (Some ''Ann'') None
       = Inl (KeyError ''Strategist'')"
    using u2 u3 u4 s by blast
  show ?thesis
    using c1 c2 c3 r1 u1 u4 u3 r2 r3 r4 by (intro conjI)
qed

lemma keyed_by_iff:
  "keyed_by key df ch
     \<longleftrightarrow> set (labels ch) \<subseteq> key ` {r \<in> set (rows df). Launch_Date r \<noteq> None}"
proof -
  have "keyed_by key df ch
      \<longleftrightarrow> (\<forall>l\<in>set (labels ch). \<exists>r\<in>set (rows df). Launch_Date r \<noteq> None \<and> key r = l)"
    unfolding keyed_by_def list_all_iff list_ex_iff ..
  also have "\<dots> \<longleftrightarrow> set (labels ch) \<subseteq> key ` {r \<in> set (rows df). Launch_Date r \<noteq> None}"
    unfolding subset_iff image_iff Bex_def Ball_def mem_Collect_eq by metis
  finally show ?thesis .
qed

lemma keyed_by_no_labels [simp]:
  "keyed_by key df (Single [] ds)" "keyed_by key df (Multi [] dss)"
  by (simp_all add: keyed_by_def)

lemma derived_iff:
  "derived d df \<longleftrightarrow>
     has_column d ''Launch Month'' = has_column df ''Launch Month''
     \<and> has_column d ''Launch YY-WW'' = has_column df ''Launch YY-WW''
     \<and> (\<forall>r'\<in>set (rows d). \<exists>r\<in>set (rows df).
           Launch_Date r \<noteq> None \<and> launch_fields r' = launch_fields r)"
  unfolding derived_def list_all_iff list_ex_iff by simp

lemma derived_dated: "derived (df_filter (\<lambda>r. Launch_Date r \<noteq> None) df) df"
  by (auto simp: derived_iff)

lemma derived_df_filter: "derived d df \<Longrightarrow> derived (df_filter keep d) df"
  by (auto simp: derived_iff)

lemma derived_status_filter: "derived d df \<Longrightarrow> derived (status_filter status d) df"
  by (simp add: status_filter_def derived_df_filter)

lemma derived_strategist_filter:
  "derived d df \<Longrightarrow> strategist_filter strategist d = Inr d' \<Longrightarrow> derived d' df"
  by (auto simp: strategist_filter_def derived_df_filter split: if_splits)

lemma derived_editor_filter:
  "derived d df \<Longrightarrow> editor_filter editor d = Inr d' \<Longrightarrow> derived d' df"
  by (auto simp: editor_filter_def derived_df_filter split: if_splits)

lemma derived_df_assign:
  assumes "derived d df"
    and "\<And>r. launch_fields (f r) = launch_fields r"
    and "name \<noteq> ''Launch Month''" "name \<noteq> ''Launch YY-WW''"
  shows "derived (df_assign name f d) df"
  using assms by (auto simp: derived_iff)

lemma spec_period_key_derived:
  assumes "has_column d ''Launch Month'' = has_column df ''Launch Month''"
    and "has_column d ''Launch YY-WW'' = has_column df ''Launch YY-WW''"
    and "launch_fields r' = launch_fields r"
  shows "spec_period_key pd d period r' = spec_period_key pd df period r"
  using assms by (simp add: spec_period_key_def period_of_date_def launch_fields_def)

lemma period_values_derived:
  assumes "derived d df"
  shows "Period ` set (rows (assign_period pd period d))
     \<subseteq> spec_period_key pd df period ` {r \<in> set (rows df). Launch_Date r \<noteq> None}"
proof
  fix l
  assume "l \<in> Period ` set (rows (assign_period pd period d))"
  then obtain r' where r': "r' \<in> set (rows d)" "l = spec_period_key pd d period r'"
    by auto
  from assms r'(1) obtain r where
    r: "r \<in> set (rows df)" "Launch_Date r \<noteq> None" "launch_fields r' = launch_fields r"
    unfolding derived_iff by blast
  have "spec_period_key pd d period r' = spec_period_key pd df period r"
    using assms r(3) by (intro spec_period_key_derived) (simp_all add: derived_iff)
  with r r'(2) show "l \<in> spec_period_key pd df period ` {r \<in> set (rows df). Launch_Date r \<noteq> None}"
    by auto
qed

lemma groupby_keys_Period: "Str ` set (groupby_keys df) \<subseteq> Period ` set (rows df)"
  by (auto simp: set_groupby_keys image_iff) (metis)

lemma map_fst_group_values:
  "map fst (map (\<lambda>(k, vs). (k, f vs)) (group_values df col)) = map Str (groupby_keys df)"
  by (simp add: group_values_def comp_def)

lemma series_chart_labels:
  assumes "series_chart pd result = Inr ch"
  shows "set (labels ch) = fst ` set result"
  using series_chart_Inr[OF assms] by force

lemma grouped_series_keyed:
  assumes "derived d df"
    and "series_chart pd (map (\<lambda>(k, vs). (k, f vs)) (group_values (assign_period pd period d) col))
           = Inr ch"
  shows "keyed_by (spec_period_key pd df period) df ch"
proof -
  have "set (labels ch) = Str ` set (groupby_keys (assign_period pd period d))"
    using series_chart_labels[OF assms(2)] map_fst_group_values[of f "assign_period pd period d" col]
    by (metis list.set_map)
  then show ?thesis
    using groupby_keys_Period[of "assign_period pd period d"] period_values_derived[OF assms(1), of pd period]
    unfolding keyed_by_iff by blast
qed

lemma win_rate_by_period_keyed:
  assumes "get_win_rate_by_period pd df period = Inr ch"
  shows "keyed_by (spec_period_key pd df period) df ch"
proof (cases "\<not> has_column df ''Launch Date'' \<or> df_empty df")
  case True
  then have "ch = Single [] []" using assms by (auto simp: get_win_rate_by_period_def)
  then show ?thesis by simp
next
  case False
  then have "labels ch
     = sort_periods_chronologically pd
         (Some (map Str (groupby_keys (assign_period pd period (dated df)))))"
    using assms by (intro win_rate_by_period_labels) simp_all
  then have "set (labels ch) = Str ` set (groupby_keys (assign_period pd period (dated df)))"
    by simp
  then show ?thesis
    using groupby_keys_Period[of "assign_period pd period (dated df)"]
      period_values_derived[OF derived_dated, of pd period df]
    unfolding keyed_by_iff dated_def by blast
qed

lemma win_rate_by_dimension_keyed:
  assumes "win_rate_by_dimension pd name col df period = Inr ch"
  shows "keyed_by (spec_period_key pd df period) df ch"
proof (cases "\<not> has_column df ''Launch Date'' \<or> \<not> has_column df name \<or> df_empty df")
  case True
  then have "ch = Multi [] []" using assms by (auto simp: win_rate_by_dimension_def)
  then show ?thesis by simp
next
  case False
  define df' where "df' = assign_period pd period (df_filter (\<lambda>r. Launch_Date r \<noteq> None) df)"
  have "\<exists>dss. ch = Multi (sort_periods_chronologically pd (Some (unique (map Period (rows df'))))) dss"
    using False assms unfolding win_rate_by_dimension_def Let_def df'_def[symmetric]
    by (auto split: sum.splits)
  then have "set (labels ch) = Period ` set (rows df')" by auto
  then show ?thesis
    using period_values_derived[OF derived_dated, of pd period df]
    unfolding keyed_by_iff df'_def by blast
qed

lemma ratio_by_dimension_keyed:
  assumes "ratio_by_dimension pd name col df period status = Inr ch"
  shows "keyed_by (spec_period_key pd df (if period = ''week'' then ''month'' else period)) df ch"
proof (cases "\<not> has_column df ''Launch Date'' \<or> \<not> has_column df name \<or> df_empty df")
  case True
  then have "ch = Multi [] []" using assms by (auto simp: ratio_by_dimension_def)
  then show ?thesis by simp
next
  case False
  define d where "d = status_filter status (df_filter (\<lambda>r. Launch_Date r \<noteq> None) df)"
  define df' where "df' = assign_period pd (if period = ''week'' then ''month'' else period) d"
  have d: "derived d df"
    unfolding d_def by (intro derived_status_filter derived_dated)
  have "\<exists>dss. ch = Multi (sort_periods_chronologically pd (Some (unique (map Period (rows df'))))) dss"
    using False assms
    unfolding ratio_by_dimension_def Let_def assign_period_ratio_eq d_def[symmetric] df'_def[symmetric]
    by auto
  then have "set (labels ch) = Period ` set (rows df')" by auto
  then show ?thesis
    using period_values_derived[OF d, of pd "if period = ''week'' then ''month'' else period"]
    unfolding keyed_by_iff df'_def by blast
qed

lemma product_ratio_keyed:
  assumes "get_product_ratio pd df period status = Inr ch"
  shows "keyed_by (spec_period_key pd df (if period = ''week'' then ''month'' else period)) df ch"
proof (cases "\<not> has_column df ''Launch Date'' \<or> \<not> has_column df ''Product'' \<or> df_empty df")
  case True
  then have "ch = Multi [] []" using assms by (auto simp: get_product_ratio_def)
  then show ?thesis by simp
next
  case False
  define d where "d = df_assign ''Product'' (\<lambda>r. r\<lparr>Product := fill_product (Product r)\<rparr>)
                        (status_filter status (df_filter (\<lambda>r. Launch_Date r \<noteq> None) df))"
  define df' where "df' = assign_period pd (if period = ''week'' then ''month'' else period) d"
  have d: "derived d df"
    unfolding d_def
    by (intro derived_df_assign derived_status_filter derived_dated)
       (simp_all add: launch_fields_def)
  have "\<exists>dss. ch = Multi (sort_periods_chronologically pd
                             (Some (unique (dropna (map Period (rows df')))))) dss"
    using False assms
    unfolding get_product_ratio_def Let_def assign_period_ratio_eq d_def[symmetric] df'_def[symmetric]
    by auto
  then have "set (labels ch) \<subseteq> Period ` set (rows df')" by auto
  then show ?thesis
    using period_values_derived[OF d, of pd "if period = ''week'' then ''month'' else period"]
    unfolding keyed_by_iff df'_def by blast
qed

lemma avg_production_time_keyed:
  assumes "get_avg_production_time pd df strategist period = Inr ch"
  shows "keyed_by (spec_period_key pd df period) df ch"
proof (cases "\<not> has_column df ''Ad time to ready (days)'' \<or> \<not> has_column df ''Launch Date''")
  case True
  then have "ch = Single [] []" using assms by (auto simp: get_avg_production_time_def)
  then show ?thesis by simp
next
  case False
  define d where "d = df_filter (\<lambda>r. 0 < the (Ad_time_to_ready_days r))
     (df_filter (\<lambda>r. Ad_time_to_ready_days r \<noteq> None) (df_filter (\<lambda>r. Launch_Date r \<noteq> None) df))"
  have d: "derived d df"
    unfolding d_def by (intro derived_df_filter derived_dated)
  note r = assms[unfolded get_avg_production_time_def Let_def d_def[symmetric]]
  show ?thesis
  proof (cases "df_empty d")
    case True
    then have "ch = Single [] []" using r False by simp
    then show ?thesis by simp
  next
    case ne: False
    show ?thesis
    proof (cases "strategist_filter strategist d")
      case (Inl e)
      then show ?thesis using r False ne by simp
    next
      case (Inr d')
      show ?thesis
      proof (cases "truthy strategist \<and> df_empty d'")
        case True
        then have "ch = Single [] []" using r False ne Inr by simp
        then show ?thesis by simp
      next
        case f: False
        then have "series_chart pd (map (\<lambda>(k, vs). (k, mean_round2 pd (map the vs)))
           (group_values (assign_period pd period d') Ad_time_to_ready_days)) = Inr ch"
          using r False ne Inr by (auto split: if_splits)
        with derived_strategist_filter[OF d Inr] show ?thesis
          by (rule grouped_series_keyed)
      qed
    qed
  qed
qed

lemma avg_editing_time_keyed:
  assumes "get_avg_editing_time pd df editor period = Inr ch"
  shows "keyed_by (spec_period_key pd df period) df ch"
proof (cases "\<not> has_column df ''Editing Duration (minutes)'' \<or> \<not> has_column df ''Launch Date''")
  case True
  then have "ch = Single [] []" using assms by (auto simp: get_avg_editing_time_def)
  then show ?thesis by simp
next
  case False
  define d where "d = df_assign ''Editing Duration (hours)''
                      (\<lambda>r. r\<lparr>Editing_Duration_hours :=
                                 map_option (\<lambda>m. fl (m / 60)) (Editing_Duration_minutes r)\<rparr>)
     (df_filter (\<lambda>r. Editing_Duration_minutes r \<noteq> None) (df_filter (\<lambda>r. Launch_Date r \<noteq> None) df))"
  have d: "derived d df"
    unfolding d_def
    by (intro derived_df_assign derived_df_filter derived_dated) (simp_all add: launch_fields_def)
  note r = assms[unfolded get_avg_editing_time_def Let_def d_def[symmetric]]
  show ?thesis
  proof (cases "editor_filter editor d")
    case (Inl e)
    then show ?thesis using r False by simp
  next
    case (Inr d')
    then have "series_chart pd (map (\<lambda>(k, vs). (k, mean_round2 pd (map the vs)))
           (group_values (assign_period pd period d') Editing_Duration_hours)) = Inr ch"
      using r False by simp
    with derived_editor_filter[OF d Inr] show ?thesis
      by (rule grouped_series_keyed)
  qed
qed

lemma creatives_volume_keyed:
  assumes "get_creatives_volume pd df period strategist status = Inr ch"
  shows "keyed_by (spec_period_key pd df period) df ch"
proof (cases "\<not> has_column df ''Launch Date'' \<or> df_empty df")
  case True
  then have "ch = Single [] []" using assms by (auto simp: get_creatives_volume_def)
  then show ?thesis by simp
next
  case False
  define d where "d = status_filter status (df_filter (\<lambda>r. Launch_Date r \<noteq> None) df)"
  have d: "derived d df"
    unfolding d_def by (intro derived_status_filter derived_dated)
  note r = assms[unfolded get_creatives_volume_def Let_def d_def[symmetric]]
  show ?thesis
  proof (cases "strategist_filter strategist d")
    case (Inl e)
    then show ?thesis using r False by simp
  next
    case (Inr d')
    then have "series_chart pd (map (\<lambda>(k, vs). (k, length vs))
           (group_values (assign_period pd period d') (\<lambda>r. ()))) = Inr ch"
      using r False by simp
    with derived_strategist_filter[OF d Inr] show ?thesis
      by (rule grouped_series_keyed)
  qed
qed

lemma win_rate_by_period_label_set:
  assumes "has_column df ''Launch Date''" "\<not> df_empty df"
    and "get_win_rate_by_period pd df period = Inr ch"
  shows "set (labels ch)
     = {Str s |s. \<exists>r\<in>set (rows df). Launch_Date r \<noteq> None
                    \<and> spec_period_key pd df period r = Str s}"
proof -
  have "labels ch
     = sort_periods_chronologically pd
         (Some (map Str (groupby_keys (assign_period pd period (dated df)))))"
    using assms by (intro win_rate_by_period_labels) simp_all
  then have "set (labels ch) = Str ` set (groupby_keys (assign_period pd period (dated df)))"
    by simp
  also have "\<dots> = {Str s |s. \<exists>r\<in>set (rows df). Launch_Date r \<noteq> None
                    \<and> spec_period_key pd df period r = Str s}"
    by (auto simp: set_groupby_keys dated_def image_iff)
  finally show ?thesis .
qed

text \<open>
  C9 (as amended). Every rate, mean and volume query gives a row the period key the
  specification describes: for weeks the Launch YY-WW value of the row when the table
  has that column, for quarters the quarter of its Launch Date, for months (and every
  other granularity) its Launch Month value when the table has that column, and the
  period of its Launch Date when the column is absent. The three ratio queries do so for
  months and quarters, and take weeks for months: they never read Launch YY-WW. Every
  label of a chart is the period key of a row that has a Launch Date, and the win rate by
  period has a label for each such key that is a string.
\<close>

theorem period_key_prefers_precomputed_column:
  "rows (assign_period pd period df)
     = map (\<lambda>r. r\<lparr>Period := spec_period_key pd df period r\<rparr>) (rows df)
   \<and> rows (assign_period_ratio pd period df)
     = map (\<lambda>r. r\<lparr>Period := spec_period_key pd df
                                  (if period = ''week'' then ''month'' else period) r\<rparr>) (rows df)
   \<and> (has_column df ''Launch Month'' \<longrightarrow>
         map Period (rows (assign_period pd ''month'' df)) = map Launch_Month (rows df)
         \<and> map Period (rows (assign_period_ratio pd ''month'' df)) = map Launch_Month (rows df)
         \<and> map Period (rows (assign_period_ratio pd ''week'' df)) = map Launch_Month (rows df))
   \<and> (\<not> has_column df ''Launch Month'' \<longrightarrow>
         map Period (rows (assign_period pd ''month'' df)) = map (period_of_date pd ''M'') (rows df)
         \<and> map Period (rows (assign_period_ratio pd ''month'' df))
             = map (period_of_date pd ''M'') (rows df)
         \<and> map Period (rows (assign_period_ratio pd ''week'' df))
             = map (period_of_date pd ''M'') (rows df))
   \<and> (has_column df ''Launch YY-WW'' \<longrightarrow>
         map Period (rows (assign_period pd ''week'' df)) = map Launch_YY_WW (rows df))
   \<and> (\<not> has_column df ''Launch YY-WW'' \<longrightarrow>
         map Period (rows (assign_period pd ''week'' df)) = map (period_of_date pd ''W'') (rows df))
   \<and> map Period (rows (assign_period pd ''quarter'' df)) = map (period_of_date pd ''Q'') (rows df)
   \<and> map Period (rows (assign_period_ratio pd ''quarter'' df))
       = map (period_of_date pd ''Q'') (rows df)
   \<and> (\<forall>ch. get_win_rate_by_period pd df period = Inr ch \<longrightarrow>
         keyed_by (spec_period_key pd df period) df ch)
   \<and> (\<forall>ch. get_win_rate_by_strategist pd df period = Inr ch \<longrightarrow>
         keyed_by (spec_period_key pd df period) df ch)
   \<and> (\<forall>ch. get_win_rate_by_product pd df period = Inr ch \<longrightarrow>
         keyed_by (spec_period_key pd df period) df ch)
   \<and> (\<forall>ch. get_win_rate_by_ad_type pd df period = Inr ch \<longrightarrow>
         keyed_by (spec_period_key pd df period) df ch)
   \<and> (\<forall>ch. get_avg_production_time pd df strategist period = Inr ch \<longrightarrow>
         keyed_by (spec_period_key pd df period) df ch)
   \<and> (\<forall>ch. get_avg_editing_time pd df editor period = Inr ch \<longrightarrow>
         keyed_by (spec_period_key pd df period) df ch)
   \<and> (\<forall>ch. get_creatives_volume pd df period strategist status = Inr ch \<longrightarrow>
         keyed_by (spec_period_key pd df period) df ch)
   \<and> (\<forall>ch. get_ad_type_ratio pd df period status = Inr ch \<longrightarrow>
         keyed_by (spec_period_key pd df (if period = ''week'' then ''month'' else period)) df ch)
   \<and> (\<forall>ch. get_product_ratio pd df period status = Inr ch \<longrightarrow>
         keyed_by (spec_period_key pd df (if period = ''week'' then ''month'' else period)) df ch)
   \<and> (\<forall>ch. get_format_ratio pd df period status = Inr ch \<longrightarrow>
         keyed_by (spec_period_key pd df (if period = ''week'' then ''month'' else period)) df ch)
   \<and> (has_column df ''Launch Date'' \<and> \<not> df_empty df \<longrightarrow>
        (\<forall>ch. get_win_rate_by_period pd df period = Inr ch \<longrightarrow>
           set (labels ch)
             = {Str s |s. \<exists>r\<in>set (rows df). Launch_Date r \<noteq> None
                            \<and> spec_period_key pd df period r = Str s}))"
proof (intro conjI impI allI)
  show "rows (assign_period pd period df)
     = map (\<lambda>r. r\<lparr>Period := spec_period_key pd df period r\<rparr>) (rows df)"
    by simp
  show "rows (assign_period_ratio pd period df)
     = map (\<lambda>r. r\<lparr>Period := spec_period_key pd df
                                  (if period = ''week'' then ''month'' else period) r\<rparr>) (rows df)"
    by (simp add: assign_period_ratio_eq)
  show "map Period (rows (assign_period pd ''quarter'' df)) = map (period_of_date pd ''Q'') (rows df)"
    "map Period (rows (assign_period_ratio pd ''quarter'' df))
       = map (period_of_date pd ''Q'') (rows df)"
    by (simp_all add: assign_period_ratio_eq spec_period_key_def comp_def)
next
  assume "has_column df ''Launch Month''"
  then show "map Period (rows (assign_period pd ''month'' df)) = map Launch_Month (rows df)"
    "map Period (rows (assign_period_ratio pd ''month'' df)) = map Launch_Month (rows df)"
    "map Period (rows (assign_period_ratio pd ''week'' df)) = map Launch_Month (rows df)"
    by (simp_all add: assign_period_ratio_eq spec_period_key_def comp_def)
next
  assume "\<not> has_column df ''Launch Month''"
  then show
    "map Period (rows (assign_period pd ''month'' df)) = map (period_of_date pd ''M'') (rows df)"
    "map Period (rows (assign_period_ratio pd ''month'' df))
       = map (period_of_date pd ''M'') (rows df)"
    "map Period (rows (assign_period_ratio pd ''week'' df))
       = map (period_of_date pd ''M'') (rows df)"
    by (simp_all add: assign_period_ratio_eq spec_period_key_def comp_def)
next
  assume "has_column df ''Launch YY-WW''"
  then show "map Period (rows (assign_period pd ''week'' df)) = map Launch_YY_WW (rows df)"
    by (simp add: spec_period_key_def comp_def)
next
  assume "\<not> has_column df ''Launch YY-WW''"
  then show
    "map Period (rows (assign_period pd ''week'' df)) = map (period_of_date pd ''W'') (rows df)"
    by (simp add: spec_period_key_def comp_def)
next
  fix ch assume "get_win_rate_by_period pd df period = Inr ch"
  then show "keyed_by (spec_period_key pd df period) df ch"
    by (rule win_rate_by_period_keyed)
next
  fix ch assume "get_win_rate_by_strategist pd df period = Inr ch"
  then show "keyed_by (spec_period_key pd df period) df ch"
    unfolding get_win_rate_by_strategist_def by (rule win_rate_by_dimension_keyed)
next
  fix ch assume "get_win_rate_by_product pd df period = Inr ch"
  then show "keyed_by (spec_period_key pd df period) df ch"
    unfolding get_win_rate_by_product_def by (rule win_rate_by_dimension_keyed)
next
  fix ch assume "get_win_rate_by_ad_type pd df period = Inr ch"
  then show "keyed_by (spec_period_key pd df period) df ch"
    unfolding get_win_rate_by_ad_type_def by (rule win_rate_by_dimension_keyed)
next
  fix ch assume "get_avg_production_time pd df strategist period = Inr ch"
  then show "keyed_by (spec_period_key pd df period) df ch"
    by (rule avg_production_time_keyed)
next
  fix ch assume "get_avg_editing_time pd df editor period = Inr ch"
  then show "keyed_by (spec_period_key pd df period) df ch"
    by (rule avg_editing_time_keyed)
next
  fix ch assume "get_creatives_volume pd df period strategist status = Inr ch"
  then show "keyed_by (spec_period_key pd df period) df ch"
    by (rule creatives_volume_keyed)
next
  fix ch assume "get_ad_type_ratio pd df period status = Inr ch"
  then show
    "keyed_by (spec_period_key pd df (if period = ''week'' then ''month'' else period)) df ch"
    unfolding get_ad_type_ratio_def by (rule ratio_by_dimension_keyed)
next
  fix ch assume "get_product_ratio pd df period status = Inr ch"
  then show
    "keyed_by (spec_period_key pd df (if period = ''week'' then ''month'' else period)) df ch"
    by (rule product_ratio_keyed)
next
  fix ch assume "get_format_ratio pd df period status = Inr ch"
  then show
    "keyed_by (spec_period_key pd df (if period = ''week'' then ''month'' else period)) df ch"
    unfolding get_format_ratio_def by (rule ratio_by_dimension_keyed)
next
  fix ch
  assume "has_column df ''Launch Date'' \<and> \<not> df_empty df"
    and "get_win_rate_by_period pd df period = Inr ch"
  then show "set (labels ch)
             = {Str s |s. \<exists>r\<in>set (rows df). Launch_Date r \<noteq> None
                            \<and> spec_period_key pd df period r = Str s}"
    by (intro win_rate_by_period_label_set) simp_all
qed

lemma campaign_week_keys:
  "map Period (rows (assign_period pandas_sample ''week'' campaign_table))
     = [Str ''24-09'', Str ''24-03'', Str []]"
  "map Launch_YY_WW (rows campaign_table) = [Str ''24-09'', Str ''24-03'', Str []]"
  "map Launch_Month (rows campaign_table) = [Str ''2024-03'', Str ''2024-01'', Str []]"
  by (simp_all add: assign_period_eq spec_period_key_def campaign_table_def blank_def
      has_column_def notion_columns_def)

theorem period_key_prefers_precomputed_column_witness:
  "has_column campaign_table ''Launch YY-WW''
   \<and> map Launch_YY_WW (rows campaign_table) = [Str ''24-09'', Str ''24-03'', Str []]
   \<and> map Period (rows (assign_period pandas_sample ''week'' campaign_table))
       = [Str ''24-09'', Str ''24-03'', Str []]
   \<and> get_win_rate_by_period pandas_sample campaign_table ''week''
       = Inr (Single [Str ''24-03'', Str ''24-09''] [100, 0])
   \<and> keyed_by (spec_period_key pandas_sample campaign_table ''week'') campaign_table
        (Single [Str ''24-03'', Str ''24-09''] [100 :: rat, 0])"
proof -
  note t = period_key_prefers_precomputed_column
      [where df = campaign_table and pd = pandas_sample and period = "''week''"
         and status = None and strategist = None and editor = None]
  have c: "has_column campaign_table ''Launch YY-WW''"
    by (simp add: has_column_def campaign_table_def notion_columns_def)
  from t have "has_column campaign_table ''Launch YY-WW'' \<longrightarrow>
         map Period (rows (assign_period pandas_sample ''week'' campaign_table))
           = map Launch_YY_WW (rows campaign_table)"
    by (elim conjE)
  with c have p: "map Period (rows (assign_period pandas_sample ''week'' campaign_table))
           = map Launch_YY_WW (rows campaign_table)"
    by simp
  from t have "\<forall>ch. get_win_rate_by_period pandas_sample campaign_table ''week'' = Inr ch \<longrightarrow>
         keyed_by (spec_period_key pandas_sample campaign_table ''week'') campaign_table ch"
    by (elim conjE)
  then have k: "keyed_by (spec_period_key pandas_sample campaign_table ''week'') campaign_table
        (Single [Str ''24-03'', Str ''24-09''] [100 :: rat, 0])"
    using campaign_win_rate_by_week by blast
  show ?thesis
    using c p k campaign_week_keys(2) campaign_win_rate_by_week by simp
qed

text \<open>
  C9 as stated fails for the ratio queries. Asked for weeks on a table that has a
  Launch YY-WW column, they key the rows by Launch Month: the labels of the example are
  \<open>2024-01\<close> and \<open>2024-03\<close>, not the Launch YY-WW values \<open>24-03\<close> and \<open>24-09\<close>.
\<close>

theorem ratio_by_week_ignores_launch_week:
  "has_column campaign_table ''Launch YY-WW''
   \<and> map Launch_YY_WW (rows (dated campaign_table)) = [Str ''24-09'', Str ''24-03'']
   \<and> map Period (rows (assign_period_ratio pandas_sample ''week'' (dated campaign_table)))
       = [Str ''2024-03'', Str ''2024-01'']
   \<and> get_ad_type_ratio pandas_sample campaign_table ''week'' None =
       Inr (Multi [Str ''2024-01'', Str ''2024-03'']
         [\<lparr>label = Str ''Static'', data = [0, 1], style = Bar ''#FF6384''\<rparr>,
          \<lparr>label = Str ''Video'', data = [1, 0], style = Bar ''#36A2EB''\<rparr>])"
proof (intro conjI)
  show "has_column campaign_table ''Launch YY-WW''"
    by (simp add: has_column_def campaign_table_def notion_columns_def)
  show "map Launch_YY_WW (rows (dated campaign_table)) = [Str ''24-09'', Str ''24-03'']"
    by (simp add: dated_def campaign_table_def blank_def)
  show "map Period (rows (assign_period_ratio pandas_sample ''week'' (dated campaign_table)))
       = [Str ''2024-03'', Str ''2024-01'']"
    by (simp add: assign_period_ratio_eq spec_period_key_def dated_def campaign_table_def
        blank_def has_column_def notion_columns_def)
  show "get_ad_type_ratio pandas_sample campaign_table ''week'' None =
       Inr (Multi [Str ''2024-01'', Str ''2024-03'']
         [\<lparr>label = Str ''Static'', data = [0, 1], style = Bar ''#FF6384''\<rparr>,
          \<lparr>label = Str ''Video'', data = [1, 0], style = Bar ''#36A2EB''\<rparr>])"
    by code_simp
qed

end
